theory Spec2Isabelle
  imports Main
begin

section \<open>Snowflake batch export: data model\<close>

text \<open>
  A shallow embedding of \<^verbatim>\<open>posthog/temporal/workflows/snowflake_batch_export.py\<close>.
  Python exceptions are values of \<open>py_exception\<close>; a function that may raise returns
  \<open>py_exception + 'a\<close> with \<open>Inl\<close> for the exception. The type covers instances of
  Python's \<^verbatim>\<open>Exception\<close> class, which is what \<^verbatim>\<open>except Exception\<close> catches.
\<close>

datatype py_exception =
    ConnectionError
  | TypeError
  | ValueError
  | IndexError
  | OverflowError
  | OtherError string

text \<open>The class name of an exception, matched by a retry policy's
  \<^verbatim>\<open>non_retryable_error_types\<close>.\<close>

fun exception_type :: "py_exception \<Rightarrow> string" where
  "exception_type ConnectionError = ''ConnectionError''"
| "exception_type TypeError = ''TypeError''"
| "exception_type ValueError = ''ValueError''"
| "exception_type IndexError = ''IndexError''"
| "exception_type OverflowError = ''OverflowError''"
| "exception_type (OtherError n) = n"

text \<open>
  A \<^verbatim>\<open>datetime\<close> is the number of microseconds since \<^verbatim>\<open>datetime.min\<close>
  (0001-01-01T00:00:00); \<^verbatim>\<open>datetime.max\<close> is 9999-12-31T23:59:59.999999. Time zones
  are left out. Subtracting a \<^verbatim>\<open>timedelta\<close> raises \<^verbatim>\<open>OverflowError\<close> when the
  result leaves that range, as Python's \<^verbatim>\<open>datetime.__sub__\<close> does.
\<close>

type_synonym datetime = int

definition datetime_min :: datetime where
  "datetime_min = 0"

definition datetime_max :: datetime where
  "datetime_max = 315537897599999999"

definition datetime_sub_seconds :: "datetime \<Rightarrow> int \<Rightarrow> py_exception + datetime" where
  "datetime_sub_seconds d secs =
     (let r = d - secs * 1000000
      in if r < datetime_min \<or> datetime_max < r then Inl OverflowError else Inr r)"

text \<open>
  \<^verbatim>\<open>SnowflakeBatchExportInputs\<close> (declared in \<^verbatim>\<open>posthog.batch_exports.service\<close>):
  the fields that \<^verbatim>\<open>run\<close> reads. \<^verbatim>\<open>data_interval_end\<close> is \<^verbatim>\<open>str | None\<close>.
\<close>

record SnowflakeBatchExportInputs =
  team_id :: int
  batch_export_id :: string
  user :: string
  password :: string
  account :: string
  database :: string
  warehouse :: string
  schema :: string
  table_name :: string
  data_interval_end :: "string option"

text \<open>
  The values a Temporal search attribute can hold. \<^verbatim>\<open>workflow.info().search_attributes.get(k)\<close>
  is \<open>None\<close> when the attribute is missing and a list of values otherwise.
\<close>

datatype search_attribute_value =
    SAStr string
  | SADatetime datetime
  | SAInt int
  | SABool bool

section \<open>Interval resolver\<close>

text \<open>
  Lines 308--338 of the source: the interval end. \<open>fromisoformat\<close> stands for
  \<^verbatim>\<open>dt.datetime.fromisoformat\<close>, \<open>attr\<close> for the value of the search attribute
  \<^verbatim>\<open>TemporalScheduledStartTime\<close>. \<^verbatim>\<open>not data_interval_end_str\<close> holds for
  \<^verbatim>\<open>None\<close> and for the empty string; indexing an empty list raises
  \<^verbatim>\<open>IndexError\<close>.
\<close>

definition resolve_data_interval_end ::
  "(string \<Rightarrow> py_exception + datetime) \<Rightarrow> search_attribute_value list option \<Rightarrow>
   SnowflakeBatchExportInputs \<Rightarrow> py_exception + datetime" where
  "resolve_data_interval_end fromisoformat attr inputs =
     (case data_interval_end inputs of
        Some (c # cs) \<Rightarrow> fromisoformat (c # cs)
      | _ \<Rightarrow>
         (case attr of
            None \<Rightarrow> Inl TypeError
          | Some [] \<Rightarrow> Inl IndexError
          | Some (SAStr s # _) \<Rightarrow> fromisoformat s
          | Some (SADatetime d # _) \<Rightarrow> Inr d
          | Some (_ # _) \<Rightarrow> Inl TypeError))"

text \<open>Lines 292--346: the interval is the hour that ends at the resolved end.\<close>

definition get_data_interval_from_workflow_inputs ::
  "(string \<Rightarrow> py_exception + datetime) \<Rightarrow> search_attribute_value list option \<Rightarrow>
   SnowflakeBatchExportInputs \<Rightarrow> py_exception + (datetime \<times> datetime)" where
  "get_data_interval_from_workflow_inputs fromisoformat attr inputs =
     (case resolve_data_interval_end fromisoformat attr inputs of
        Inl e \<Rightarrow> Inl e
      | Inr data_interval_end' \<Rightarrow>
         (case datetime_sub_seconds data_interval_end' 3600 of
            Inl e \<Rightarrow> Inl e
          | Inr data_interval_start \<Rightarrow> Inr (data_interval_start, data_interval_end')))"

section \<open>Rows, statements and temporary files\<close>

text \<open>
  Python values as they occur in a row and in a decoded JSON document. A \<^verbatim>\<open>dict\<close> is
  an association list in insertion order; a row of the result iterator is such a mapping.
\<close>

datatype py_value =
    PyNone
  | PyBool bool
  | PyInt int
  | PyStr string
  | PyDatetime datetime
  | PyList "py_value list"
  | PyDict "(string \<times> py_value) list"

type_synonym row = "(string \<times> py_value) list"

text \<open>\<^verbatim>\<open>d.get(k, default)\<close>.\<close>

definition dict_get :: "row \<Rightarrow> string \<Rightarrow> py_value \<Rightarrow> py_value" where
  "dict_get d k dflt = (case map_of d k of None \<Rightarrow> dflt | Some v \<Rightarrow> v)"

text \<open>\<^verbatim>\<open>{**d, k: v}\<close>: an existing key keeps its place, a new key goes last.\<close>

fun dict_set :: "row \<Rightarrow> string \<Rightarrow> py_value \<Rightarrow> row" where
  "dict_set [] k v = [(k, v)]"
| "dict_set ((k', v') # d) k v = (if k' = k then (k, v) # d else (k', v') # dict_set d k v)"

text \<open>
  The statements sent through \<^verbatim>\<open>cursor.execute\<close>. A \<open>Put\<close> carries the number
  of the temporary file it names (files are numbered in the order of their creation),
  the bytes that file holds when the statement is sent, and the table. \<open>CopyInto\<close>
  carries the table, the file format type, the \<^verbatim>\<open>MATCH_BY_COLUMN_NAME\<close> mode and the
  \<^verbatim>\<open>PURGE\<close> flag.
\<close>

datatype statement =
    UseDatabase string
  | UseSchema string
  | CreateTableIfNotExists string string string "(string \<times> string) list"
  | Put nat string string
  | CopyInto string string string bool

definition events_table_columns :: "(string \<times> string) list" where
  "events_table_columns =
     [(''uuid'', ''STRING''), (''event'', ''STRING''), (''properties'', ''VARIANT''),
      (''elements'', ''VARIANT''), (''people_set'', ''VARIANT''),
      (''people_set_once'', ''VARIANT''), (''distinct_id'', ''STRING''),
      (''team_id'', ''INTEGER''), (''ip'', ''STRING''), (''site_url'', ''STRING''),
      (''timestamp'', ''TIMESTAMP'')]"

record tempfile =
  content :: string
  closed :: bool

datatype connection_state = NotConnected | Connected | ConnectionClosed

datatype client_call = IsAlive | GetRowsCount | GetResultsIterator

text \<open>What \<^verbatim>\<open>__anext__\<close> does at one call; the end of the list of outcomes is
  \<^verbatim>\<open>StopAsyncIteration\<close>.\<close>

datatype anext = Yields row | Raises py_exception

text \<open>The inputs of the two run-tracking activities (declared in
  \<^verbatim>\<open>posthog.temporal.workflows.base\<close>), with the fields \<^verbatim>\<open>run\<close> sets.\<close>

record CreateBatchExportRunInputs =
  team_id :: int
  batch_export_id :: string
  data_interval_start :: string
  data_interval_end :: string

record UpdateBatchExportRunStatusInputs =
  id' :: string
  status :: string

record SnowflakeInsertInputs =
  team_id :: int
  user :: string
  password :: string
  account :: string
  database :: string
  warehouse :: string
  schema :: string
  table_name :: string
  data_interval_start :: string
  data_interval_end :: string

text \<open>
  Everything outside the activity that it calls: the ClickHouse client
  (\<open>is_alive\<close>, \<open>get_rows_count\<close>, \<open>get_results_iterator\<close>), the Snowflake
  connector (\<open>snowflake_connect\<close>; \<open>cursor_execute\<close> sees the statements sent before
  and the one being sent, and says whether it raises), the \<^verbatim>\<open>json\<close> module and the
  Django setting for the chunk size.
\<close>

record activity_env =
  is_alive :: bool
  get_rows_count :: "int \<Rightarrow> string \<Rightarrow> string \<Rightarrow> py_exception + nat"
  snowflake_connect :: "py_exception option"
  cursor_execute :: "statement list \<Rightarrow> statement \<Rightarrow> py_exception option"
  get_results_iterator :: "int \<Rightarrow> string \<Rightarrow> string \<Rightarrow> anext list"
  json_loads :: "string \<Rightarrow> py_exception + py_value"
  json_dumps :: "row \<Rightarrow> py_exception + string"
  BATCH_EXPORT_SNOWFLAKE_UPLOAD_CHUNK_SIZE_BYTES :: int

text \<open>
  What the activity has done so far: the calls on the ClickHouse client, the state of
  the Snowflake connection, the statements sent (oldest first) and the temporary files
  created (newest first: the head is \<^verbatim>\<open>local_results_file\<close>).
\<close>

record activity_state =
  client_calls :: "client_call list"
  connection :: connection_state
  queries :: "statement list"
  files :: "tempfile list"

definition initial_state :: activity_state where
  "initial_state = \<lparr>client_calls = [], connection = NotConnected, queries = [], files = []\<rparr>"

section \<open>The insert activity\<close>

type_synonym outcome = "(py_exception + unit) \<times> activity_state"

text \<open>Sequencing: an exception ends the block, with the state reached so far.\<close>

definition and_then :: "outcome \<Rightarrow> (activity_state \<Rightarrow> outcome) \<Rightarrow> outcome" where
  "and_then r f = (case r of (Inl e, st) \<Rightarrow> (Inl e, st) | (Inr _, st) \<Rightarrow> f st)"

text \<open>\<^verbatim>\<open>try: body finally: cleanup\<close>, for a cleanup that does not raise.\<close>

definition try_finally ::
  "(activity_state \<Rightarrow> outcome) \<Rightarrow> (activity_state \<Rightarrow> activity_state) \<Rightarrow> activity_state \<Rightarrow> outcome" where
  "try_finally body cleanup st = (case body st of (r, st') \<Rightarrow> (r, cleanup st'))"

definition execute :: "activity_env \<Rightarrow> statement \<Rightarrow> activity_state \<Rightarrow> outcome" where
  "execute env q st =
     ((case cursor_execute env (queries st) q of Some e \<Rightarrow> Inl e | None \<Rightarrow> Inr ()),
      st\<lparr>queries := queries st @ [q]\<rparr>)"

definition NamedTemporaryFile :: "activity_state \<Rightarrow> activity_state" where
  "NamedTemporaryFile st = st\<lparr>files := \<lparr>content = [], closed = False\<rparr> # files st\<rparr>"

definition file_write :: "string \<Rightarrow> activity_state \<Rightarrow> activity_state" where
  "file_write bytes st =
     (case files st of
        [] \<Rightarrow> st
      | f # fs \<Rightarrow> st\<lparr>files := f\<lparr>content := content f @ bytes\<rparr> # fs\<rparr>)"

definition file_tell :: "activity_state \<Rightarrow> nat" where
  "file_tell st = (case files st of [] \<Rightarrow> 0 | f # fs \<Rightarrow> length (content f))"

definition file_content :: "activity_state \<Rightarrow> string" where
  "file_content st = (case files st of [] \<Rightarrow> [] | f # fs \<Rightarrow> content f)"

definition file_name :: "activity_state \<Rightarrow> nat" where
  "file_name st = length (files st) - 1"

definition file_close :: "activity_state \<Rightarrow> activity_state" where
  "file_close st =
     (case files st of
        [] \<Rightarrow> st
      | f # fs \<Rightarrow> st\<lparr>files := f\<lparr>closed := True\<rparr> # fs\<rparr>)"

definition conn_close :: "activity_state \<Rightarrow> activity_state" where
  "conn_close st = st\<lparr>connection := ConnectionClosed\<rparr>"

definition newline :: string where
  "newline = [CHR 0x0A]"

text \<open>\<^verbatim>\<open>json.loads(x)\<close>: a \<^verbatim>\<open>TypeError\<close> for an argument that is not text.\<close>

definition py_json_loads :: "activity_env \<Rightarrow> py_value \<Rightarrow> py_exception + py_value" where
  "py_json_loads env x = (case x of PyStr s \<Rightarrow> json_loads env s | _ \<Rightarrow> Inl TypeError)"

text \<open>
  Lines 151--158: the row with its \<^verbatim>\<open>properties\<close> decoded, serialized, followed by a
  newline. \<^verbatim>\<open>json.dumps\<close> escapes every character outside ASCII, so the UTF-8
  encoding of its result has one byte per character.
\<close>

definition serialize_row :: "activity_env \<Rightarrow> row \<Rightarrow> py_exception + string" where
  "serialize_row env result =
     (case py_json_loads env (dict_get result ''properties'' (PyStr ''{}'')) of
        Inl e \<Rightarrow> Inl e
      | Inr properties \<Rightarrow>
         (case json_dumps env (dict_set result ''properties'' properties) of
            Inl e \<Rightarrow> Inl e
          | Inr line \<Rightarrow> Inr (line @ newline)))"

text \<open>
  Lines 138--178, the \<^verbatim>\<open>while True\<close> loop over the outcomes of \<^verbatim>\<open>__anext__\<close>.
  An empty mapping is falsy: \<^verbatim>\<open>if not result: break\<close>.
\<close>

fun staging_loop ::
  "activity_env \<Rightarrow> SnowflakeInsertInputs \<Rightarrow> anext list \<Rightarrow> activity_state \<Rightarrow> outcome" where
  "staging_loop env inputs [] st = (Inr (), st)"
| "staging_loop env inputs (Raises e # rest) st = (Inl e, st)"
| "staging_loop env inputs (Yields result # rest) st =
     (if result = [] then (Inr (), st)
      else
        (case serialize_row env result of
           Inl e \<Rightarrow> (Inl e, st)
         | Inr bytes \<Rightarrow>
            (let st1 = file_write bytes st
             in if file_tell st1 \<noteq> 0 \<and>
                   int (file_tell st1) > BATCH_EXPORT_SNOWFLAKE_UPLOAD_CHUNK_SIZE_BYTES env
                then and_then
                       (execute env (Put (file_name st1) (file_content st1) (table_name inputs)) st1)
                       (\<lambda>st2. staging_loop env inputs rest (NamedTemporaryFile (file_close st2)))
                else staging_loop env inputs rest st1)))"

text \<open>Lines 138--198, the body of the inner \<^verbatim>\<open>try\<close>: the loop, the last
  \<^verbatim>\<open>PUT\<close>, the close of the file and the \<^verbatim>\<open>COPY INTO\<close>.\<close>

definition stage_and_load :: "activity_env \<Rightarrow> SnowflakeInsertInputs \<Rightarrow> anext list \<Rightarrow> activity_state \<Rightarrow> outcome" where
  "stage_and_load env inputs results_iterator st =
     and_then (staging_loop env inputs results_iterator st) (\<lambda>st1.
     and_then (execute env (Put (file_name st1) (file_content st1) (table_name inputs)) st1) (\<lambda>st2.
     execute env (CopyInto (table_name inputs) ''JSON'' ''CASE_SENSITIVE'' True) (file_close st2)))"

text \<open>Lines 104--200, the body of the outer \<^verbatim>\<open>try\<close>.\<close>

definition export_rows :: "activity_env \<Rightarrow> SnowflakeInsertInputs \<Rightarrow> activity_state \<Rightarrow> outcome" where
  "export_rows env inputs st =
     and_then (execute env (UseDatabase (database inputs)) st) (\<lambda>st1.
     and_then (execute env (UseSchema (schema inputs)) st1) (\<lambda>st2.
     and_then (execute env (CreateTableIfNotExists (database inputs) (schema inputs)
                              (table_name inputs) events_table_columns) st2) (\<lambda>st3.
       (let results_iterator =
              get_results_iterator env (team_id inputs) (data_interval_start inputs)
                (data_interval_end inputs);
            st4 = st3\<lparr>client_calls := client_calls st3 @ [GetResultsIterator]\<rparr>
        in try_finally (stage_and_load env inputs results_iterator) file_close
             (NamedTemporaryFile st4)))))"

text \<open>Lines 57--202.\<close>

definition insert_into_snowflake_activity :: "activity_env \<Rightarrow> SnowflakeInsertInputs \<Rightarrow> outcome" where
  "insert_into_snowflake_activity env inputs =
     (let st0 = initial_state\<lparr>client_calls := [IsAlive]\<rparr>
      in if \<not> is_alive env then (Inl ConnectionError, st0)
         else
           (let st1 = st0\<lparr>client_calls := client_calls st0 @ [GetRowsCount]\<rparr>
            in case get_rows_count env (team_id inputs) (data_interval_start inputs)
                      (data_interval_end inputs) of
                 Inl e \<Rightarrow> (Inl e, st1)
               | Inr count \<Rightarrow>
                  if count = 0 then (Inr (), st1)
                  else
                    (case snowflake_connect env of
                       Some e \<Rightarrow> (Inl e, st1)
                     | None \<Rightarrow>
                        try_finally (export_rows env inputs) conn_close
                          (st1\<lparr>connection := Connected\<rparr>))))"

section \<open>The workflow\<close>

text \<open>
  \<^verbatim>\<open>workflow.execute_activity\<close> under a \<^verbatim>\<open>RetryPolicy\<close>: the activity is attempted
  again after an exception unless the exception's type is listed as non-retryable or
  \<^verbatim>\<open>maximum_attempts\<close> attempts have been made. \<open>activity k\<close> is what attempt
  number \<open>k\<close> does. The result is the number of attempts made and the value or the
  exception of the last one. Timeouts are left out, and so is the unlimited policy
  \<^verbatim>\<open>maximum_attempts=0\<close>, which the source does not use.
\<close>

record RetryPolicy =
  maximum_attempts :: nat
  non_retryable_error_types :: "string list"

fun attempt_activity ::
  "string list \<Rightarrow> (nat \<Rightarrow> py_exception + 'a) \<Rightarrow> nat \<Rightarrow> nat \<Rightarrow> nat \<times> (py_exception + 'a)" where
  "attempt_activity non_retryable activity k 0 = (k, activity k)"
| "attempt_activity non_retryable activity k (Suc remaining) =
     (case activity k of
        Inr v \<Rightarrow> (k, Inr v)
      | Inl e \<Rightarrow>
         if exception_type e \<in> set non_retryable then (k, Inl e)
         else attempt_activity non_retryable activity (Suc k) remaining)"

definition execute_activity ::
  "RetryPolicy \<Rightarrow> (nat \<Rightarrow> py_exception + 'a) \<Rightarrow> nat \<times> (py_exception + 'a)" where
  "execute_activity retry_policy activity =
     attempt_activity (non_retryable_error_types retry_policy) activity 1
       (maximum_attempts retry_policy - 1)"

text \<open>The three retry policies of \<^verbatim>\<open>run\<close>, lines 239--242, 265--274 and 288.\<close>

definition create_export_run_retry_policy :: RetryPolicy where
  "create_export_run_retry_policy =
     \<lparr>maximum_attempts = 3, non_retryable_error_types = [''NotNullViolation'', ''IntegrityError'']\<rparr>"

definition insert_into_snowflake_retry_policy :: RetryPolicy where
  "insert_into_snowflake_retry_policy =
     \<lparr>maximum_attempts = 3, non_retryable_error_types = [''ConnectionError'', ''ValueError'']\<rparr>"

definition update_export_run_status_retry_policy :: RetryPolicy where
  "update_export_run_status_retry_policy =
     \<lparr>maximum_attempts = 3, non_retryable_error_types = []\<rparr>"

text \<open>
  What the workflow finds around it: the \<^verbatim>\<open>datetime\<close> functions, the search attribute
  \<^verbatim>\<open>TemporalScheduledStartTime\<close>, what each attempt of the two run-tracking
  activities does, and the environment that each attempt of the insert activity runs in.
\<close>

record workflow_env =
  fromisoformat :: "string \<Rightarrow> py_exception + datetime"
  isoformat :: "datetime \<Rightarrow> string"
  TemporalScheduledStartTime :: "search_attribute_value list option"
  create_export_run :: "CreateBatchExportRunInputs \<Rightarrow> nat \<Rightarrow> py_exception + string"
  insert_activity_env :: "nat \<Rightarrow> activity_env"
  update_export_run_status :: "UpdateBatchExportRunStatusInputs \<Rightarrow> nat \<Rightarrow> py_exception + unit"

datatype activity_call =
    CreateExportRun CreateBatchExportRunInputs
  | InsertIntoSnowflake SnowflakeInsertInputs
  | UpdateExportRunStatus UpdateBatchExportRunStatusInputs

text \<open>What \<^verbatim>\<open>run\<close> raises or returns, and its \<^verbatim>\<open>execute_activity\<close> calls in
  order, each with the number of attempts made.\<close>

record workflow_result =
  result :: "py_exception + unit"
  activities :: "(activity_call \<times> nat) list"

text \<open>Lines 228--233 and 247--258: the inputs of the two activities.\<close>

definition create_export_run_inputs ::
  "workflow_env \<Rightarrow> SnowflakeBatchExportInputs \<Rightarrow> datetime \<Rightarrow> datetime \<Rightarrow> CreateBatchExportRunInputs" where
  "create_export_run_inputs env inputs interval_start interval_end =
     \<lparr>CreateBatchExportRunInputs.team_id = SnowflakeBatchExportInputs.team_id inputs,
      batch_export_id = SnowflakeBatchExportInputs.batch_export_id inputs,
      data_interval_start = isoformat env interval_start,
      data_interval_end = isoformat env interval_end\<rparr>"

definition insert_inputs ::
  "workflow_env \<Rightarrow> SnowflakeBatchExportInputs \<Rightarrow> datetime \<Rightarrow> datetime \<Rightarrow> SnowflakeInsertInputs" where
  "insert_inputs env inputs interval_start interval_end =
     \<lparr>team_id = SnowflakeBatchExportInputs.team_id inputs,
      user = SnowflakeBatchExportInputs.user inputs,
      password = SnowflakeBatchExportInputs.password inputs,
      account = SnowflakeBatchExportInputs.account inputs,
      database = SnowflakeBatchExportInputs.database inputs,
      warehouse = SnowflakeBatchExportInputs.warehouse inputs,
      schema = SnowflakeBatchExportInputs.schema inputs,
      table_name = SnowflakeBatchExportInputs.table_name inputs,
      data_interval_start = isoformat env interval_start,
      data_interval_end = isoformat env interval_end\<rparr>"

text \<open>Lines 260--275: the insert activity under its retry policy.\<close>

definition execute_insert_activity ::
  "workflow_env \<Rightarrow> SnowflakeInsertInputs \<Rightarrow> nat \<times> (py_exception + unit)" where
  "execute_insert_activity env i =
     execute_activity insert_into_snowflake_retry_policy
       (\<lambda>k. fst (insert_into_snowflake_activity (insert_activity_env env k) i))"

text \<open>
  Lines 222--289. An exception of the interval resolver or of \<^verbatim>\<open>create_export_run\<close>
  leaves \<^verbatim>\<open>run\<close> at once. The insert activity runs inside
  \<^verbatim>\<open>try ... except Exception ... finally\<close>: the handler sets the status to
  \<^verbatim>\<open>Failed\<close> and re-raises, the \<^verbatim>\<open>finally\<close> block runs the status update, and
  an exception of the status update replaces the one in flight.
\<close>

definition run :: "workflow_env \<Rightarrow> SnowflakeBatchExportInputs \<Rightarrow> workflow_result" where
  "run env inputs =
     (case get_data_interval_from_workflow_inputs (fromisoformat env)
             (TemporalScheduledStartTime env) inputs of
        Inl e \<Rightarrow> \<lparr>result = Inl e, activities = []\<rparr>
      | Inr (interval_start, interval_end) \<Rightarrow>
         (let c = create_export_run_inputs env inputs interval_start interval_end;
              created = execute_activity create_export_run_retry_policy (create_export_run env c)
          in case snd created of
               Inl e \<Rightarrow> \<lparr>result = Inl e, activities = [(CreateExportRun c, fst created)]\<rparr>
             | Inr run_id \<Rightarrow>
                 (let update_inputs = \<lparr>id' = run_id, status = ''Completed''\<rparr>;
                      i = insert_inputs env inputs interval_start interval_end;
                      inserted = execute_insert_activity env i;
                      update_inputs' =
                        (case snd inserted of
                           Inl e \<Rightarrow> update_inputs\<lparr>status := ''Failed''\<rparr>
                         | Inr _ \<Rightarrow> update_inputs);
                      updated = execute_activity update_export_run_status_retry_policy
                                  (update_export_run_status env update_inputs')
                  in \<lparr>result = (case snd updated of Inl e \<Rightarrow> Inl e | Inr _ \<Rightarrow> snd inserted),
                      activities =
                        [(CreateExportRun c, fst created),
                         (InsertIntoSnowflake i, fst inserted),
                         (UpdateExportRunStatus update_inputs', fst updated)]\<rparr>)))"

section \<open>Observations\<close>

text \<open>
  The contents of the files staged by the \<^verbatim>\<open>PUT\<close> statements, in order, as the mock
  of the Snowflake API in the repository's test collects them (\<^verbatim>\<open>staged_files\<close>), and
  the numbers of the files they name.
\<close>

fun staged_files :: "statement list \<Rightarrow> string list" where
  "staged_files [] = []"
| "staged_files (Put n bytes t # qs) = bytes # staged_files qs"
| "staged_files (q # qs) = staged_files qs"

fun put_files :: "statement list \<Rightarrow> nat list" where
  "put_files [] = []"
| "put_files (Put n bytes t # qs) = n # put_files qs"
| "put_files (q # qs) = put_files qs"

fun is_put :: "string \<Rightarrow> statement \<Rightarrow> bool" where
  "is_put t (Put n bytes t') = (t' = t)"
| "is_put t q = False"

definition copy_into :: "SnowflakeInsertInputs \<Rightarrow> statement" where
  "copy_into inputs = CopyInto (table_name inputs) ''JSON'' ''CASE_SENSITIVE'' True"

definition loader_preamble :: "SnowflakeInsertInputs \<Rightarrow> statement list" where
  "loader_preamble inputs =
     [UseDatabase (database inputs), UseSchema (schema inputs),
      CreateTableIfNotExists (database inputs) (schema inputs) (table_name inputs)
        events_table_columns]"

text \<open>Some \<^verbatim>\<open>PUT\<close> statements for the table, then nothing or the one
  \<^verbatim>\<open>COPY INTO\<close>, then nothing.\<close>

fun puts_then_copy :: "SnowflakeInsertInputs \<Rightarrow> statement list \<Rightarrow> bool" where
  "puts_then_copy inputs [] = True"
| "puts_then_copy inputs (q # qs) =
     (if is_put (table_name inputs) q then puts_then_copy inputs qs
      else q = copy_into inputs \<and> qs = [])"

text \<open>The statements sent so far follow the loader's order: they are the start of
  the preamble, or the whole preamble followed by \<open>puts_then_copy\<close>.\<close>

definition strict_order :: "SnowflakeInsertInputs \<Rightarrow> statement list \<Rightarrow> bool" where
  "strict_order inputs qs =
     (if length qs \<le> 3 then qs = take (length qs) (loader_preamble inputs)
      else take 3 qs = loader_preamble inputs \<and> puts_then_copy inputs (drop 3 qs))"

section \<open>The source store\<close>

text \<open>
  \<^verbatim>\<open>get_rows_count\<close> and \<^verbatim>\<open>get_results_iterator\<close> are functions of
  \<^verbatim>\<open>posthog.temporal.workflows.batch_exports\<close>, which is not among the source
  files; \<^verbatim>\<open>SELECT_QUERY_TEMPLATE\<close> of lines 24--33 is not used by the activity.
\<close>

text \<open>Modelled from the spec: an event of the source store, with the fields of the
  source store query contract (the optional ones are left out). The row that the
  iterator yields for it is a mapping of these fields in which timestamps and
  \<^verbatim>\<open>properties\<close> are text.\<close>

record EventRecord =
  ev_uuid :: string
  ev_event :: string
  ev_timestamp :: datetime
  ev_inserted_at :: datetime
  ev_person_id :: string
  ev_team_id :: int
  ev_properties :: string

text \<open>Modelled from the spec: the mapping of named fields that the source store
  produces for an event; \<open>format_timestamp\<close> is the store's rendering of a timestamp
  as text, \<open>ev_inserted_at\<close> is the field \<^verbatim>\<open>_timestamp\<close>.\<close>

definition event_row :: "(datetime \<Rightarrow> string) \<Rightarrow> EventRecord \<Rightarrow> row" where
  "event_row format_timestamp ev =
     [(''uuid'', PyStr (ev_uuid ev)),
      (''event'', PyStr (ev_event ev)),
      (''timestamp'', PyStr (format_timestamp (ev_timestamp ev))),
      (''_timestamp'', PyStr (format_timestamp (ev_inserted_at ev))),
      (''person_id'', PyStr (ev_person_id ev)),
      (''team_id'', PyInt (ev_team_id ev)),
      (''properties'', PyStr (ev_properties ev))]"

text \<open>Modelled from the spec: the filter of the Row Stream Adapter, \<^verbatim>\<open>timestamp\<close> in
  \<open>[start, end)\<close> and \<^verbatim>\<open>team_id\<close> the given one; \<open>toDateTime\<close> is the store's
  reading of the interval bounds, which the activity passes as text.\<close>

definition in_interval ::
  "(string \<Rightarrow> datetime) \<Rightarrow> int \<Rightarrow> string \<Rightarrow> string \<Rightarrow> EventRecord \<Rightarrow> bool" where
  "in_interval toDateTime team interval_start interval_end ev =
     (toDateTime interval_start \<le> ev_timestamp ev \<and>
      ev_timestamp ev < toDateTime interval_end \<and> ev_team_id ev = team)"

text \<open>Modelled from the spec: \<^verbatim>\<open>get_rows_count\<close>, the count operation of the Row
  Stream Adapter, is the number of events of the store that pass the filter.\<close>

definition spec_get_rows_count ::
  "(string \<Rightarrow> datetime) \<Rightarrow> EventRecord list \<Rightarrow> int \<Rightarrow> string \<Rightarrow> string \<Rightarrow> nat" where
  "spec_get_rows_count toDateTime events team interval_start interval_end =
     length (filter (in_interval toDateTime team interval_start interval_end) events)"

text \<open>Modelled from the spec: \<^verbatim>\<open>get_results_iterator\<close>, the Row Stream Adapter,
  yields the rows of the events that pass the filter, in the store's scan order, and
  then stops.\<close>

definition spec_get_results_iterator ::
  "(string \<Rightarrow> datetime) \<Rightarrow> (datetime \<Rightarrow> string) \<Rightarrow> EventRecord list \<Rightarrow>
   int \<Rightarrow> string \<Rightarrow> string \<Rightarrow> anext list" where
  "spec_get_results_iterator toDateTime format_timestamp events team interval_start interval_end =
     map (\<lambda>ev. Yields (event_row format_timestamp ev))
       (filter (in_interval toDateTime team interval_start interval_end) events)"

section \<open>More observations\<close>

text \<open>The status updates among the \<^verbatim>\<open>execute_activity\<close> calls of a run.\<close>

fun update_calls :: "(activity_call \<times> nat) list \<Rightarrow> UpdateBatchExportRunStatusInputs list" where
  "update_calls [] = []"
| "update_calls ((UpdateExportRunStatus u, n) # cs) = u # update_calls cs"
| "update_calls (c # cs) = update_calls cs"

text \<open>
  The buffers that the loop and the last \<^verbatim>\<open>PUT\<close> stage, as a function of the
  threshold, the bytes already in the buffer and the lines still to be written: a buffer
  is sealed as soon as it is not empty and holds more bytes than the threshold, and the
  buffer left at the end is the last one.
\<close>

fun chunks :: "int \<Rightarrow> string \<Rightarrow> string list \<Rightarrow> string list" where
  "chunks T cur [] = [cur]"
| "chunks T cur (l # ls) =
     (if length (cur @ l) \<noteq> 0 \<and> int (length (cur @ l)) > T then (cur @ l) # chunks T [] ls
      else chunks T (cur @ l) ls)"

section \<open>An example run\<close>

text \<open>
  The scenario of the repository's workflow test: the interval that ends at
  2023-04-20 14:40, two events of team 1 inside it, one event of team 1 before it, one
  event of team 2 inside it, the properties text of the test, and a chunk size of one
  byte. The functions that read and write timestamps and the JSON decoder know the texts
  of this scenario only.
\<close>

definition example_fromisoformat :: "string \<Rightarrow> py_exception + datetime" where
  "example_fromisoformat s =
     (if s = ''2023-04-20 14:40:00.000000'' then Inr 63817598400000000
      else if s = ''0001-01-01T00:00:00'' then Inr 0
      else Inl ValueError)"

definition example_isoformat :: "datetime \<Rightarrow> string" where
  "example_isoformat d =
     (if d = 63817598400000000 then ''2023-04-20T14:40:00''
      else if d = 63817594800000000 then ''2023-04-20T13:40:00''
      else ''other'')"

definition example_toDateTime :: "string \<Rightarrow> datetime" where
  "example_toDateTime s =
     (if s = ''2023-04-20T14:40:00'' then 63817598400000000
      else if s = ''2023-04-20T13:40:00'' then 63817594800000000
      else 0)"

definition example_inputs :: SnowflakeBatchExportInputs where
  "example_inputs =
     \<lparr>SnowflakeBatchExportInputs.team_id = 1, batch_export_id = ''export-1'',
      user = ''hazzadous'', password = ''password'', account = ''account'',
      database = ''PostHog'', warehouse = ''COMPUTE_WH'', schema = ''test'',
      table_name = ''events'', data_interval_end = Some ''2023-04-20 14:40:00.000000''\<rparr>"

definition example_insert_inputs :: SnowflakeInsertInputs where
  "example_insert_inputs =
     \<lparr>team_id = 1, user = ''hazzadous'', password = ''password'', account = ''account'',
      database = ''PostHog'', warehouse = ''COMPUTE_WH'', schema = ''test'',
      table_name = ''events'', data_interval_start = ''2023-04-20T13:40:00'',
      data_interval_end = ''2023-04-20T14:40:00''\<rparr>"

definition example_format_timestamp :: "datetime \<Rightarrow> string" where
  "example_format_timestamp d =
     (if d = 63817597800000000 then ''2023-04-20 14:30:00.000000''
      else if d = 63817597800000001 then ''2023-04-20 14:30:00.000001''
      else if d = 63817594200000000 then ''2023-04-20 13:30:00.000000''
      else ''other'')"

definition example_properties :: string where
  \<open>example_properties = ''{"$browser": "Chrome", "$os": "Mac OS X"}''\<close>

definition example_event :: "string \<Rightarrow> datetime \<Rightarrow> int \<Rightarrow> EventRecord" where
  "example_event uuid ts team =
     \<lparr>ev_uuid = uuid, ev_event = ''test'', ev_timestamp = ts,
      ev_inserted_at = 63817597800000000, ev_person_id = ''person-1'', ev_team_id = team,
      ev_properties = example_properties\<rparr>"

definition example_events :: "EventRecord list" where
  "example_events =
     [example_event ''e1'' 63817597800000000 1,
      example_event ''e0'' 63817594200000000 1,
      example_event ''e2'' 63817597800000001 1,
      example_event ''e3'' 63817597800000000 2]"

definition example_row :: "string \<Rightarrow> datetime \<Rightarrow> int \<Rightarrow> row" where
  "example_row uuid ts team = event_row example_format_timestamp (example_event uuid ts team)"

definition example_json_loads :: "string \<Rightarrow> py_exception + py_value" where
  "example_json_loads s =
     (if s = ''{}'' then Inr (PyDict [])
      else if s = example_properties
        then Inr (PyDict [(''$browser'', PyStr ''Chrome''), (''$os'', PyStr ''Mac OS X'')])
      else Inl (OtherError ''JSONDecodeError''))"

text \<open>
  \<^verbatim>\<open>json.dumps\<close> with its default arguments, on values of ASCII text: the separators
  are a comma and a colon, each followed by a space; the quote, the backslash and the
  control characters of a text are escaped; a \<^verbatim>\<open>datetime\<close> anywhere in the value
  raises \<^verbatim>\<open>TypeError\<close>.
\<close>

definition digit_char :: "nat \<Rightarrow> char" where
  "digit_char n = ''0123456789abcdef'' ! n"

function show_nat :: "nat \<Rightarrow> string" where
  "show_nat n = (if n < 10 then [digit_char n] else show_nat (n div 10) @ [digit_char (n mod 10)])"
  by pat_completeness auto
termination
  by (relation "measure id") auto

declare show_nat.simps [simp del]

definition show_int :: "int \<Rightarrow> string" where
  "show_int i = (if i < 0 then ''-'' @ show_nat (nat (- i)) else show_nat (nat i))"

definition json_escape :: "char \<Rightarrow> string" where
  \<open>json_escape c =
     (if c = CHR ''"'' then [CHR 0x5C, CHR ''"'']
      else if c = CHR 0x5C then [CHR 0x5C, CHR 0x5C]
      else if c = CHR 0x0A then [CHR 0x5C, CHR ''n'']
      else if c = CHR 0x0D then [CHR 0x5C, CHR ''r'']
      else if c = CHR 0x09 then [CHR 0x5C, CHR ''t'']
      else if c = CHR 0x08 then [CHR 0x5C, CHR ''b'']
      else if c = CHR 0x0C then [CHR 0x5C, CHR ''f'']
      else if (of_char c :: nat) < 32
        then [CHR 0x5C, CHR ''u'', CHR ''0'', CHR ''0'',
              digit_char (of_char c div 16), digit_char (of_char c mod 16)]
      else [c])\<close>

definition json_string :: "string \<Rightarrow> string" where
  \<open>json_string s = ''"'' @ concat (map json_escape s) @ ''"''\<close>

fun join :: "string \<Rightarrow> string list \<Rightarrow> string" where
  "join sep [] = []"
| "join sep [x] = x"
| "join sep (x # y # ys) = x @ sep @ join sep (y # ys)"

fun json_serializable :: "py_value \<Rightarrow> bool" where
  "json_serializable (PyDatetime d) = False"
| "json_serializable (PyList vs) = list_all json_serializable vs"
| "json_serializable (PyDict kvs) = list_all (\<lambda>kv. json_serializable (snd kv)) kvs"
| "json_serializable v = True"

fun json_text :: "py_value \<Rightarrow> string" where
  "json_text PyNone = ''null''"
| "json_text (PyBool b) = (if b then ''true'' else ''false'')"
| "json_text (PyInt i) = show_int i"
| "json_text (PyStr s) = json_string s"
| "json_text (PyDatetime d) = []"
| "json_text (PyList vs) = ''['' @ join '', '' (map json_text vs) @ '']''"
| "json_text (PyDict kvs) =
     ''{'' @ join '', '' (map (\<lambda>kv. json_string (fst kv) @ '': '' @ json_text (snd kv)) kvs) @ ''}''"

definition example_json_dumps :: "row \<Rightarrow> py_exception + string" where
  "example_json_dumps r =
     (if json_serializable (PyDict r) then Inr (json_text (PyDict r)) else Inl TypeError)"

definition example_activity_env :: activity_env where
  "example_activity_env =
     \<lparr>is_alive = True,
      get_rows_count = (\<lambda>team s e.
        Inr (spec_get_rows_count example_toDateTime example_events team s e)),
      snowflake_connect = None,
      cursor_execute = (\<lambda>h q. None),
      get_results_iterator =
        spec_get_results_iterator example_toDateTime example_format_timestamp example_events,
      json_loads = example_json_loads,
      json_dumps = example_json_dumps,
      BATCH_EXPORT_SNOWFLAKE_UPLOAD_CHUNK_SIZE_BYTES = 1\<rparr>"

text \<open>The bytes that the example writes for a row: its line and a newline.\<close>

definition example_bytes :: "row \<Rightarrow> string" where
  "example_bytes r =
     (case serialize_row example_activity_env r of Inr bytes \<Rightarrow> bytes | Inl e \<Rightarrow> [])"

definition example_workflow_env :: workflow_env where
  "example_workflow_env =
     \<lparr>fromisoformat = example_fromisoformat,
      isoformat = example_isoformat,
      TemporalScheduledStartTime = None,
      create_export_run = (\<lambda>c k. Inr ''run-1''),
      insert_activity_env = (\<lambda>k. example_activity_env),
      update_export_run_status = (\<lambda>u k. Inr ())\<rparr>"

text \<open>A warehouse that rejects the fifth statement it is sent, and a result iterator
  that yields an empty mapping between the two events of the interval.\<close>

definition example_failing_execute :: "statement list \<Rightarrow> statement \<Rightarrow> py_exception option" where
  "example_failing_execute h q =
     (if length h = 4 then Some (OtherError ''ProgrammingError'') else None)"

definition example_falsy_iterator :: "int \<Rightarrow> string \<Rightarrow> string \<Rightarrow> anext list" where
  "example_falsy_iterator team s e =
     [Yields (example_row ''e1'' 63817597800000000 1), Yields [],
      Yields (example_row ''e2'' 63817597800000001 1)]"

section \<open>Lemmas\<close>

lemma and_then_Inr [simp]: "and_then (Inr u, st) f = f st"
  by (simp add: and_then_def)

lemma and_then_Inl [simp]: "and_then (Inl e, st) f = (Inl e, st)"
  by (simp add: and_then_def)

lemma and_then_cases:
  assumes "and_then x f = (r, st')"
  obtains e where "x = (Inl e, st')" "r = Inl e"
        | st1 where "x = (Inr (), st1)" "f st1 = (r, st')"
  using assms by (cases x; cases "fst x") (auto simp: and_then_def)

lemma execute_cases:
  assumes "execute env q st = (r, st')"
  shows "st' = st\<lparr>queries := queries st @ [q]\<rparr>"
  using assms by (auto simp: execute_def)

lemma execute_ok:
  "cursor_execute env (queries st) q = None \<Longrightarrow>
   execute env q st = (Inr (), st\<lparr>queries := queries st @ [q]\<rparr>)"
  by (simp add: execute_def)

lemma file_write_files [simp]:
  "files st = f # fs \<Longrightarrow> files (file_write b st) = f\<lparr>content := content f @ b\<rparr> # fs"
  by (simp add: file_write_def)

lemma file_write_other [simp]:
  "queries (file_write b st) = queries st"
  "client_calls (file_write b st) = client_calls st"
  "connection (file_write b st) = connection st"
  by (simp_all add: file_write_def split: list.splits)

lemma file_close_files [simp]:
  "files st = f # fs \<Longrightarrow> files (file_close st) = f\<lparr>closed := True\<rparr> # fs"
  by (simp add: file_close_def)

lemma file_close_other [simp]:
  "queries (file_close st) = queries st"
  "client_calls (file_close st) = client_calls st"
  "connection (file_close st) = connection st"
  by (simp_all add: file_close_def split: list.splits)

lemma NamedTemporaryFile_simps [simp]:
  "files (NamedTemporaryFile st) = \<lparr>content = [], closed = False\<rparr> # files st"
  "queries (NamedTemporaryFile st) = queries st"
  "client_calls (NamedTemporaryFile st) = client_calls st"
  "connection (NamedTemporaryFile st) = connection st"
  by (simp_all add: NamedTemporaryFile_def)

lemma file_obs [simp]:
  "files st = f # fs \<Longrightarrow> file_tell st = length (content f)"
  "files st = f # fs \<Longrightarrow> file_content st = content f"
  "files st = f # fs \<Longrightarrow> file_name st = length fs"
  by (simp_all add: file_tell_def file_content_def file_name_def)

lemma put_files_append [simp]: "put_files (xs @ ys) = put_files xs @ put_files ys"
  by (induction xs rule: put_files.induct) auto

lemma staged_files_append [simp]: "staged_files (xs @ ys) = staged_files xs @ staged_files ys"
  by (induction xs rule: staged_files.induct) auto

text \<open>
  What every run of the loop does, whatever the outcome: it sends only \<^verbatim>\<open>PUT\<close>
  statements, one per file and in the order of the files' creation, and it closes every
  file but the current one.
\<close>

lemma staging_loop_structure:
  assumes "staging_loop env inputs its st = (r, st')" and "files st = f # fs"
  shows "\<exists>puts f' fs'.
           queries st' = queries st @ puts \<and>
           list_all (is_put (table_name inputs)) puts \<and>
           put_files puts = [length fs ..< length fs + length puts] \<and>
           files st' = f' # fs' \<and>
           (list_all closed fs \<longrightarrow> list_all closed fs') \<and>
           (r = Inr () \<longrightarrow> length fs' = length fs + length puts) \<and>
           client_calls st' = client_calls st \<and> connection st' = connection st"
  using assms
proof (induction its arbitrary: st f fs)
  case Nil
  then show ?case by auto
next
  case (Cons it its)
  show ?case
  proof (cases it)
    case (Raises e)
    with Cons.prems show ?thesis by auto
  next
    case (Yields result)
    show ?thesis
    proof (cases "result = []")
      case True
      with Cons.prems Yields show ?thesis by auto
    next
      case False
      show ?thesis
      proof (cases "serialize_row env result")
        case (Inl e)
        with Cons.prems Yields False show ?thesis by auto
      next
        case (Inr b)
        let ?st1 = "file_write b st"
        let ?f1 = "f\<lparr>content := content f @ b\<rparr>"
        have f1: "files ?st1 = ?f1 # fs" using Cons.prems(2) by simp
        show ?thesis
        proof (cases "file_tell ?st1 \<noteq> 0 \<and>
                 int (file_tell ?st1) > BATCH_EXPORT_SNOWFLAKE_UPLOAD_CHUNK_SIZE_BYTES env")
          case no: False
          then have "staging_loop env inputs its ?st1 = (r, st')"
            using Cons.prems(1) Yields False Inr by (auto simp: Let_def)
          from Cons.IH [OF this f1] show ?thesis by simp
        next
          case yes: True
          let ?q = "Put (file_name ?st1) (file_content ?st1) (table_name inputs)"
          have q: "?q = Put (length fs) (content ?f1) (table_name inputs)"
            using f1 by simp
          have run: "and_then (execute env ?q ?st1)
                   (\<lambda>st2. staging_loop env inputs its (NamedTemporaryFile (file_close st2))) = (r, st')"
            using Cons.prems(1) Yields False Inr yes by (auto simp: Let_def)
          from run show ?thesis
          proof (cases rule: and_then_cases)
            case (1 e)
            from execute_cases [OF 1(1)] have "st' = ?st1\<lparr>queries := queries ?st1 @ [?q]\<rparr>" .
            then have "queries st' = queries st @ [?q]" "files st' = ?f1 # fs"
              "client_calls st' = client_calls st" "connection st' = connection st"
              using f1 by simp_all
            then show ?thesis using 1(2) q
              by (intro exI [of _ "[?q]"] exI [of _ ?f1] exI [of _ fs]) simp
          next
            case (2 st2)
            from execute_cases [OF 2(1)] have st2: "st2 = ?st1\<lparr>queries := queries ?st1 @ [?q]\<rparr>" .
            let ?st3 = "NamedTemporaryFile (file_close st2)"
            have f2: "files st2 = ?f1 # fs" using st2 f1 by simp
            have f3: "files ?st3 = \<lparr>content = [], closed = False\<rparr> # (?f1\<lparr>closed := True\<rparr> # fs)"
              using f2 by simp
            from Cons.IH [OF 2(2) f3] obtain puts f' fs' where
              ih: "queries st' = queries ?st3 @ puts"
                  "list_all (is_put (table_name inputs)) puts"
                  "put_files puts = [Suc (length fs) ..< Suc (length fs) + length puts]"
                  "files st' = f' # fs'"
                  "list_all closed (?f1\<lparr>closed := True\<rparr> # fs) \<longrightarrow> list_all closed fs'"
                  "r = Inr () \<longrightarrow> length fs' = Suc (length fs) + length puts"
                  "client_calls st' = client_calls ?st3" "connection st' = connection ?st3"
              by auto
            have q3: "queries ?st3 = queries st @ [?q]" using st2 by simp
            have "[length fs ..< length fs + Suc (length puts)] =
                    length fs # [Suc (length fs) ..< Suc (length fs) + length puts]"
              by (subst upt_rec) simp
            then have "put_files (?q # puts) = [length fs ..< length fs + length (?q # puts)]"
              using ih(3) q by simp
            moreover have "queries st' = queries st @ (?q # puts)" using ih(1) q3 by simp
            moreover have "list_all (is_put (table_name inputs)) (?q # puts)" using ih(2) by simp
            moreover have "client_calls st' = client_calls st" "connection st' = connection st"
              using ih(7,8) st2 by simp_all
            ultimately show ?thesis using ih(4,5,6)
              by (intro exI [of _ "?q # puts"] exI [of _ f'] exI [of _ fs']) simp
          qed
        qed
      qed
    qed
  qed
qed

lemma staging_loop_healthy:
  assumes ex: "\<And>h q. cursor_execute env h q = None"
      and rows: "\<And>r. r \<in> set rows \<Longrightarrow> r \<noteq> [] \<and> serialize_row env r = Inr (enc r)"
      and f: "files st = f # fs"
  shows "\<exists>st'. staging_loop env inputs (map Yields rows) st = (Inr (), st') \<and>
           staged_files (queries st') @ [file_content st'] =
           staged_files (queries st) @
             chunks (BATCH_EXPORT_SNOWFLAKE_UPLOAD_CHUNK_SIZE_BYTES env) (content f) (map enc rows)"
  using rows f
proof (induction rows arbitrary: st f fs)
  case Nil
  then show ?case by simp
next
  case (Cons r rows)
  let ?T = "BATCH_EXPORT_SNOWFLAKE_UPLOAD_CHUNK_SIZE_BYTES env"
  let ?st1 = "file_write (enc r) st"
  let ?f1 = "f\<lparr>content := content f @ enc r\<rparr>"
  have r: "r \<noteq> []" "serialize_row env r = Inr (enc r)" using Cons.prems(1) by auto
  have rest: "\<And>x. x \<in> set rows \<Longrightarrow> x \<noteq> [] \<and> serialize_row env x = Inr (enc x)"
    using Cons.prems(1) by auto
  have f1: "files ?st1 = ?f1 # fs" using Cons.prems(2) by simp
  show ?case
  proof (cases "length (content f @ enc r) \<noteq> 0 \<and> int (length (content f @ enc r)) > ?T")
    case False
    from Cons.IH [OF rest f1] obtain st' where
      ih: "staging_loop env inputs (map Yields rows) ?st1 = (Inr (), st')"
          "staged_files (queries st') @ [file_content st'] =
           staged_files (queries ?st1) @ chunks ?T (content ?f1) (map enc rows)"
      by blast
    have "staging_loop env inputs (map Yields (r # rows)) st = (Inr (), st')"
      using r f1 False ih(1) by (auto simp: Let_def)
    moreover have "chunks ?T (content f) (map enc (r # rows)) = chunks ?T (content ?f1) (map enc rows)"
      using False by auto
    ultimately show ?thesis using ih(2) by simp
  next
    case True
    let ?q = "Put (length fs) (content ?f1) (table_name inputs)"
    let ?st2 = "?st1\<lparr>queries := queries ?st1 @ [?q]\<rparr>"
    let ?st3 = "NamedTemporaryFile (file_close ?st2)"
    have f3: "files ?st3 = \<lparr>content = [], closed = False\<rparr> # (?f1\<lparr>closed := True\<rparr> # fs)"
      using f1 by simp
    from Cons.IH [OF rest f3] obtain st' where
      ih: "staging_loop env inputs (map Yields rows) ?st3 = (Inr (), st')"
          "staged_files (queries st') @ [file_content st'] =
           staged_files (queries ?st3) @ chunks ?T [] (map enc rows)"
      by auto
    have e: "execute env ?q ?st1 = (Inr (), ?st2)" by (rule execute_ok) (rule ex)
    have "staging_loop env inputs (map Yields (r # rows)) st = (Inr (), st')"
      using r f1 True ih(1) e by (auto simp: Let_def)
    moreover have "chunks ?T (content f) (map enc (r # rows)) =
                   (content f @ enc r) # chunks ?T [] (map enc rows)"
      using True by auto
    ultimately show ?thesis using ih(2) by simp
  qed
qed

lemma staging_loop_stops_at_falsy:
  "staging_loop env inputs (its @ Yields [] # rest) st = staging_loop env inputs its st"
proof (induction its arbitrary: st)
  case Nil
  show ?case by simp
next
  case (Cons it its)
  show ?case
  proof (cases it)
    case (Raises e)
    then show ?thesis by simp
  next
    case (Yields result)
    then show ?thesis by (simp add: Cons.IH Let_def split: sum.splits)
  qed
qed

lemma chunks_not_Nil [simp]: "chunks T cur ls \<noteq> []"
  by (induction ls arbitrary: cur) auto

lemma concat_chunks: "concat (chunks T cur ls) = cur @ concat ls"
  by (induction ls arbitrary: cur) auto




lemma chunks_one_per_line:
  assumes "\<And>l. l \<in> set ls \<Longrightarrow> l \<noteq> [] \<and> T < int (length l)"
  shows "chunks T [] ls = ls @ [[]]"
  using assms by (induction ls) auto

lemma is_put_copy_into [simp]: "\<not> is_put t (copy_into inputs)"
  by (simp add: copy_into_def)

lemma puts_then_copy_puts:
  "list_all (is_put (table_name inputs)) puts \<Longrightarrow>
   puts_then_copy inputs puts \<and> puts_then_copy inputs (puts @ [copy_into inputs])"
  by (induction puts) auto

lemma strict_order_preamble:
  "strict_order inputs (loader_preamble inputs @ qs) = puts_then_copy inputs qs"
  by (cases qs) (auto simp: strict_order_def loader_preamble_def)

lemma strict_order_short:
  "strict_order inputs []"
  "strict_order inputs [UseDatabase (database inputs)]"
  "strict_order inputs [UseDatabase (database inputs), UseSchema (schema inputs)]"
  by (simp_all add: strict_order_def loader_preamble_def)

lemma stage_and_load_structure:
  assumes "stage_and_load env inputs its st = (r, st')" and "files st = f # fs"
  shows "\<exists>puts f' fs'.
           list_all (is_put (table_name inputs)) puts \<and>
           put_files puts = [length fs ..< length fs + length puts] \<and>
           files st' = f' # fs' \<and>
           (list_all closed fs \<longrightarrow> list_all closed fs') \<and>
           client_calls st' = client_calls st \<and> connection st' = connection st \<and>
           ((\<exists>e. r = Inl e) \<and> queries st' = queries st @ puts \<or>
            queries st' = queries st @ puts @ [copy_into inputs] \<and> puts \<noteq> [] \<and>
            Suc (length fs') = length fs + length puts \<and>
            last (staged_files puts) = content f')"
proof -
  let ?t = "table_name inputs"
  from assms(1) show ?thesis unfolding stage_and_load_def
  proof (cases rule: and_then_cases)
    case (1 e)
    from staging_loop_structure [OF 1(1) assms(2)] 1(2) show ?thesis by blast
  next
    case (2 st1)
    from staging_loop_structure [OF 2(1) assms(2)] obtain puts f1 fs1 where
      l: "queries st1 = queries st @ puts" "list_all (is_put ?t) puts"
         "put_files puts = [length fs ..< length fs + length puts]"
         "files st1 = f1 # fs1" "list_all closed fs \<longrightarrow> list_all closed fs1"
         "length fs1 = length fs + length puts"
         "client_calls st1 = client_calls st" "connection st1 = connection st"
      by auto
    let ?q = "Put (length fs1) (content f1) ?t"
    have q: "Put (file_name st1) (file_content st1) ?t = ?q" using l(4) by simp
    have pf: "put_files (puts @ [?q]) = [length fs ..< length fs + length (puts @ [?q])]"
      using l(3,6) by simp
    have pa: "list_all (is_put ?t) (puts @ [?q])" using l(2) by simp
    from 2(2) show ?thesis
    proof (cases rule: and_then_cases)
      case (1 e)
      from execute_cases [OF 1(1)] q have "st' = st1\<lparr>queries := queries st1 @ [?q]\<rparr>" by simp
      then have "queries st' = queries st @ (puts @ [?q])" "files st' = f1 # fs1"
        "client_calls st' = client_calls st" "connection st' = connection st"
        using l by simp_all
      with pf pa l(5) 1(2) show ?thesis by blast
    next
      case (2 st2)
      from execute_cases [OF 2(1)] q have st2: "st2 = st1\<lparr>queries := queries st1 @ [?q]\<rparr>" by simp
      have f2: "files st2 = f1 # fs1" using st2 l(4) by simp
      from execute_cases [OF 2(2)] have
        "st' = (file_close st2)\<lparr>queries := queries (file_close st2) @
                 [CopyInto ?t ''JSON'' ''CASE_SENSITIVE'' True]\<rparr>" .
      then have "queries st' = queries st @ (puts @ [?q]) @ [copy_into inputs]"
        "files st' = f1\<lparr>closed := True\<rparr> # fs1"
        "client_calls st' = client_calls st" "connection st' = connection st"
        using st2 f2 l by (simp_all add: copy_into_def)
      moreover have "puts @ [?q] \<noteq> []" by simp
      moreover have "Suc (length fs1) = length fs + length (puts @ [?q])" using l(6) by simp
      moreover have "last (staged_files (puts @ [?q])) = content (f1\<lparr>closed := True\<rparr>)" by simp
      ultimately show ?thesis using pf pa l(5) by blast
    qed
  qed
qed

lemma export_rows_structure:
  assumes run: "export_rows env inputs st = (r, st')" and q0: "queries st = []" and f0: "files st = []"
  shows "strict_order inputs (queries st') \<and> list_all closed (files st') \<and>
         connection st' = connection st \<and>
         (r = Inr () \<longrightarrow>
            (\<exists>puts. queries st' = loader_preamble inputs @ puts @ [copy_into inputs] \<and>
               puts \<noteq> [] \<and> list_all (is_put (table_name inputs)) puts \<and>
               put_files puts = [0 ..< length puts] \<and> length (files st') = length puts \<and>
               last (staged_files puts) = file_content st'))"
proof -
  let ?q1 = "UseDatabase (database inputs)"
  let ?q2 = "UseSchema (schema inputs)"
  let ?q3 = "CreateTableIfNotExists (database inputs) (schema inputs) (table_name inputs)
               events_table_columns"
  from run show ?thesis unfolding export_rows_def
  proof (cases rule: and_then_cases)
    case (1 e)
    from execute_cases [OF 1(1)] q0 f0 1(2) show ?thesis by (simp add: strict_order_short)
  next
    case (2 st1)
    from execute_cases [OF 2(1)] have st1: "st1 = st\<lparr>queries := queries st @ [?q1]\<rparr>" .
    from 2(2) show ?thesis
    proof (cases rule: and_then_cases)
      case (1 e)
      from execute_cases [OF 1(1)] st1 q0 f0 1(2) show ?thesis by (simp add: strict_order_short)
    next
      case (2 st2)
      from execute_cases [OF 2(1)] have st2: "st2 = st1\<lparr>queries := queries st1 @ [?q2]\<rparr>" .
      from 2(2) show ?thesis
      proof (cases rule: and_then_cases)
        case (1 e)
        from execute_cases [OF 1(1)] have "st' = st2\<lparr>queries := queries st2 @ [?q3]\<rparr>" .
        then have "queries st' = loader_preamble inputs @ []" "files st' = []"
          "connection st' = connection st"
          using st1 st2 q0 f0 by (simp_all add: loader_preamble_def)
        then show ?thesis using 1(2) by (simp only: strict_order_preamble) simp
      next
        case (2 st3)
        from execute_cases [OF 2(1)] have st3: "st3 = st2\<lparr>queries := queries st2 @ [?q3]\<rparr>" .
        let ?st5 = "NamedTemporaryFile (st3\<lparr>client_calls := client_calls st3 @ [GetResultsIterator]\<rparr>)"
        have q5: "queries ?st5 = loader_preamble inputs"
          using st1 st2 st3 q0 by (simp add: loader_preamble_def)
        have f5: "files ?st5 = \<lparr>content = [], closed = False\<rparr> # []"
          using st1 st2 st3 f0 by simp
        have c5: "connection ?st5 = connection st" using st1 st2 st3 by simp
        obtain st6 where
          body: "stage_and_load env inputs
                   (get_results_iterator env (team_id inputs) (data_interval_start inputs)
                      (data_interval_end inputs)) ?st5 = (r, st6)"
          and fin: "st' = file_close st6"
          using 2(2) by (auto simp: Let_def try_finally_def split: prod.splits)
        from stage_and_load_structure [OF body f5] obtain puts f' fs' where
          s: "list_all (is_put (table_name inputs)) puts"
             "put_files puts = [0 ..< length puts]"
             "files st6 = f' # fs'" "list_all closed fs'"
             "connection st6 = connection ?st5"
             "(\<exists>e. r = Inl e) \<and> queries st6 = queries ?st5 @ puts \<or>
              queries st6 = queries ?st5 @ puts @ [copy_into inputs] \<and> puts \<noteq> [] \<and>
              Suc (length fs') = length puts \<and> last (staged_files puts) = content f'"
          by auto
        have closed: "list_all closed (files st')" using fin s(3,4) by simp
        have conn: "connection st' = connection st" using fin s(5) c5 by simp
        have len: "length (files st') = Suc (length fs')" using fin s(3) by simp
        have cont: "file_content st' = content f'" using fin s(3) by simp
        from s(6) show ?thesis
        proof
          assume a: "(\<exists>e. r = Inl e) \<and> queries st6 = queries ?st5 @ puts"
          then have "queries st' = loader_preamble inputs @ puts" using fin q5 by simp
          then have "strict_order inputs (queries st')"
            using puts_then_copy_puts [OF s(1)] by (simp only: strict_order_preamble)
          with a closed conn show ?thesis by auto
        next
          assume a: "queries st6 = queries ?st5 @ puts @ [copy_into inputs] \<and> puts \<noteq> [] \<and>
              Suc (length fs') = length puts \<and> last (staged_files puts) = content f'"
          then have q: "queries st' = loader_preamble inputs @ puts @ [copy_into inputs]"
            using fin q5 by simp
          then have "strict_order inputs (queries st')"
            using puts_then_copy_puts [OF s(1)] by (simp only: strict_order_preamble)
          with a q closed conn len cont s(1,2) show ?thesis by auto
        qed
      qed
    qed
  qed
qed

lemma activity_cases:
  assumes "insert_into_snowflake_activity env inputs = (r, st)"
  obtains
    (dead) "\<not> is_alive env" "r = Inl ConnectionError"
      "st = initial_state\<lparr>client_calls := [IsAlive]\<rparr>"
  | (count_failed) e where "is_alive env"
      "get_rows_count env (team_id inputs) (data_interval_start inputs) (data_interval_end inputs) = Inl e"
      "r = Inl e" "st = initial_state\<lparr>client_calls := [IsAlive, GetRowsCount]\<rparr>"
  | (empty) "is_alive env"
      "get_rows_count env (team_id inputs) (data_interval_start inputs) (data_interval_end inputs) = Inr 0"
      "r = Inr ()" "st = initial_state\<lparr>client_calls := [IsAlive, GetRowsCount]\<rparr>"
  | (connect_failed) n e where "is_alive env"
      "get_rows_count env (team_id inputs) (data_interval_start inputs) (data_interval_end inputs) = Inr n"
      "n \<noteq> 0" "snowflake_connect env = Some e"
      "r = Inl e" "st = initial_state\<lparr>client_calls := [IsAlive, GetRowsCount]\<rparr>"
  | (export) n st' where "is_alive env"
      "get_rows_count env (team_id inputs) (data_interval_start inputs) (data_interval_end inputs) = Inr n"
      "n \<noteq> 0" "snowflake_connect env = None"
      "export_rows env inputs
         (initial_state\<lparr>client_calls := [IsAlive, GetRowsCount], connection := Connected\<rparr>) = (r, st')"
      "st = conn_close st'"
  using assms
  by (auto simp: insert_into_snowflake_activity_def Let_def try_finally_def initial_state_def
      split: if_splits sum.splits option.splits prod.splits)

lemma activity_structure:
  assumes run: "insert_into_snowflake_activity env inputs = (r, st)"
  shows "strict_order inputs (queries st) \<and> list_all closed (files st) \<and>
         connection st \<noteq> Connected \<and>
         (connection st = NotConnected \<longrightarrow> queries st = [] \<and> files st = []) \<and>
         (r = Inr () \<and> connection st \<noteq> NotConnected \<longrightarrow>
            (\<exists>puts. queries st = loader_preamble inputs @ puts @ [copy_into inputs] \<and>
               puts \<noteq> [] \<and> list_all (is_put (table_name inputs)) puts \<and>
               put_files puts = [0 ..< length puts] \<and> length (files st) = length puts \<and>
               last (staged_files puts) = file_content st))"
  using run
proof (cases rule: activity_cases)
  case (export n st')
  have "queries (initial_state\<lparr>client_calls := [IsAlive, GetRowsCount], connection := Connected\<rparr>) = []"
       "files (initial_state\<lparr>client_calls := [IsAlive, GetRowsCount], connection := Connected\<rparr>) = []"
    by (simp_all add: initial_state_def)
  from export_rows_structure [OF export(5) this] export(6)
  show ?thesis by (simp add: conn_close_def file_content_def)
qed (simp_all add: initial_state_def strict_order_short)

lemma activity_healthy:
  assumes alive: "is_alive env"
      and count: "get_rows_count env (team_id inputs) (data_interval_start inputs)
                    (data_interval_end inputs) = Inr n" "n \<noteq> 0"
      and conn: "snowflake_connect env = None"
      and ex: "\<And>h q. cursor_execute env h q = None"
      and it: "get_results_iterator env (team_id inputs) (data_interval_start inputs)
                 (data_interval_end inputs) = map Yields rows @ tail"
      and tail: "tail = [] \<or> (\<exists>rest. tail = Yields [] # rest)"
      and rows: "\<And>r. r \<in> set rows \<Longrightarrow> r \<noteq> [] \<and> serialize_row env r = Inr (enc r)"
  shows "\<exists>st. insert_into_snowflake_activity env inputs = (Inr (), st) \<and>
           connection st = ConnectionClosed \<and>
           client_calls st = [IsAlive, GetRowsCount, GetResultsIterator] \<and>
           staged_files (queries st) =
             chunks (BATCH_EXPORT_SNOWFLAKE_UPLOAD_CHUNK_SIZE_BYTES env) [] (map enc rows)"
proof -
  let ?T = "BATCH_EXPORT_SNOWFLAKE_UPLOAD_CHUNK_SIZE_BYTES env"
  let ?st0 = "initial_state\<lparr>client_calls := [IsAlive, GetRowsCount], connection := Connected\<rparr>"
  let ?st5 = "\<lparr>client_calls = [IsAlive, GetRowsCount, GetResultsIterator], connection = Connected,
               queries = loader_preamble inputs, files = [\<lparr>content = [], closed = False\<rparr>]\<rparr>"
  have f5: "files ?st5 = \<lparr>content = [], closed = False\<rparr> # []" by simp
  from staging_loop_healthy [of env rows enc ?st5, OF ex rows f5] obtain st6 where
    loop: "staging_loop env inputs (map Yields rows) ?st5 = (Inr (), st6)"
    and staged: "staged_files (queries st6) @ [file_content st6] =
                 staged_files (queries ?st5) @ chunks ?T [] (map enc rows)"
    by auto
  from staging_loop_structure [OF loop f5] have
    keep: "client_calls st6 = client_calls ?st5" "connection st6 = connection ?st5"
    by auto
  let ?q = "Put (file_name st6) (file_content st6) (table_name inputs)"
  let ?st7 = "st6\<lparr>queries := queries st6 @ [?q]\<rparr>"
  let ?st8 = "(file_close ?st7)\<lparr>queries := queries (file_close ?st7) @
                [CopyInto (table_name inputs) ''JSON'' ''CASE_SENSITIVE'' True]\<rparr>"
  have "staging_loop env inputs (map Yields rows @ tail) ?st5 =
        staging_loop env inputs (map Yields rows) ?st5"
    using tail by (auto simp: staging_loop_stops_at_falsy)
  then have sl: "stage_and_load env inputs (map Yields rows @ tail) ?st5 = (Inr (), ?st8)"
    unfolding stage_and_load_def loop
    by (simp add: execute_ok ex)
  have er: "export_rows env inputs ?st0 = (Inr (), file_close ?st8)"
    unfolding export_rows_def
    by (simp add: execute_def ex it Let_def try_finally_def NamedTemporaryFile_def
        initial_state_def loader_preamble_def sl [unfolded loader_preamble_def])
  have act: "insert_into_snowflake_activity env inputs = (Inr (), conn_close (file_close ?st8))"
    unfolding insert_into_snowflake_activity_def
    using alive count conn er by (simp add: Let_def try_finally_def initial_state_def)
  have "staged_files (queries ?st5) = []" by (simp add: loader_preamble_def)
  then have "staged_files (queries (conn_close (file_close ?st8))) = chunks ?T [] (map enc rows)"
    using staged by (simp add: conn_close_def)
  moreover have "connection (conn_close (file_close ?st8)) = ConnectionClosed"
    by (simp add: conn_close_def)
  moreover have "client_calls (conn_close (file_close ?st8)) =
                 [IsAlive, GetRowsCount, GetResultsIterator]"
    using keep by (simp add: conn_close_def)
  ultimately show ?thesis using act by blast
qed

lemma resolve_no_explicit_end:
  assumes "SnowflakeBatchExportInputs.data_interval_end inputs = None \<or>
           SnowflakeBatchExportInputs.data_interval_end inputs = Some []"
  shows "resolve_data_interval_end f attr inputs =
     (case attr of
        None \<Rightarrow> Inl TypeError
      | Some [] \<Rightarrow> Inl IndexError
      | Some (SAStr s # _) \<Rightarrow> f s
      | Some (SADatetime d # _) \<Rightarrow> Inr d
      | Some (_ # _) \<Rightarrow> Inl TypeError)"
  using assms by (auto simp: resolve_data_interval_end_def)

section \<open>The interval resolver: claims C6 and C7\<close>

text \<open>
  Claim C6, as the code has it. With no explicit interval end (\<^verbatim>\<open>None\<close> or the empty
  string), interval resolution fails with \<^verbatim>\<open>TypeError\<close> when the scheduled-start
  signal is missing and when its first value is neither a string nor a timestamp; when
  the first value is a string that the ISO-8601 parser rejects, the empty string among
  them, it fails with the parser's exception. The code has no
  \<^verbatim>\<open>ConfigurationError\<close>.
\<close>

theorem missing_interval_end_raises:
  assumes "SnowflakeBatchExportInputs.data_interval_end inputs = None \<or>
           SnowflakeBatchExportInputs.data_interval_end inputs = Some []"
  shows "(attr = None \<longrightarrow>
            get_data_interval_from_workflow_inputs f attr inputs = Inl TypeError) \<and>
         (\<forall>v rest. attr = Some (v # rest) \<and> (\<forall>s. v \<noteq> SAStr s) \<and> (\<forall>d. v \<noteq> SADatetime d) \<longrightarrow>
            get_data_interval_from_workflow_inputs f attr inputs = Inl TypeError) \<and>
         (\<forall>s rest e. attr = Some (SAStr s # rest) \<and> f s = Inl e \<longrightarrow>
            get_data_interval_from_workflow_inputs f attr inputs = Inl e)"
proof -
  note r = resolve_no_explicit_end [OF assms, of f attr]
  show ?thesis
    unfolding get_data_interval_from_workflow_inputs_def r
    by (auto split: search_attribute_value.splits)
qed

text \<open>The theorem at work: a missing signal, a signal that holds an integer, and a
  signal that holds the empty string.\<close>

theorem missing_interval_end_raises_witness:
  "get_data_interval_from_workflow_inputs example_fromisoformat None
     (example_inputs\<lparr>SnowflakeBatchExportInputs.data_interval_end := None\<rparr>) = Inl TypeError \<and>
   get_data_interval_from_workflow_inputs example_fromisoformat (Some [SAInt 5])
     (example_inputs\<lparr>SnowflakeBatchExportInputs.data_interval_end := None\<rparr>) = Inl TypeError \<and>
   get_data_interval_from_workflow_inputs example_fromisoformat (Some [SAStr []])
     (example_inputs\<lparr>SnowflakeBatchExportInputs.data_interval_end := None\<rparr>) = Inl ValueError"
proof -
  let ?i = "example_inputs\<lparr>SnowflakeBatchExportInputs.data_interval_end := None\<rparr>"
  have h: "SnowflakeBatchExportInputs.data_interval_end ?i = None \<or>
           SnowflakeBatchExportInputs.data_interval_end ?i = Some []" by simp
  have p: "example_fromisoformat [] = Inl ValueError" by (simp add: example_fromisoformat_def)
  from missing_interval_end_raises [OF h, of None example_fromisoformat]
       missing_interval_end_raises [OF h, of "Some [SAInt 5]" example_fromisoformat]
       missing_interval_end_raises [OF h, of "Some [SAStr []]" example_fromisoformat] p
  show ?thesis by simp
qed

text \<open>
  Claim C6 as stated fails: with no explicit end and no signal the resolver raises
  \<^verbatim>\<open>TypeError\<close>, with the empty string as the signal it raises the parser's
  \<^verbatim>\<open>ValueError\<close>, and neither is a \<^verbatim>\<open>ConfigurationError\<close>.
\<close>

theorem missing_interval_end_counterexample:
  "get_data_interval_from_workflow_inputs example_fromisoformat None
     (example_inputs\<lparr>SnowflakeBatchExportInputs.data_interval_end := None\<rparr>) = Inl TypeError \<and>
   get_data_interval_from_workflow_inputs example_fromisoformat (Some [SAStr []])
     (example_inputs\<lparr>SnowflakeBatchExportInputs.data_interval_end := None\<rparr>) = Inl ValueError \<and>
   exception_type TypeError \<noteq> ''ConfigurationError'' \<and>
   exception_type ValueError \<noteq> ''ConfigurationError''"
  by (simp add: get_data_interval_from_workflow_inputs_def resolve_data_interval_end_def
      example_inputs_def example_fromisoformat_def)

text \<open>
  Claim C7, as the code has it. For every interval end \<open>e\<close> resolved from an explicit
  ISO-8601 string or from the schedule signal, the resolver returns the pair
  (\<open>e\<close> minus one hour, \<open>e\<close>) when \<open>e\<close> lies at least one hour after
  \<^verbatim>\<open>datetime.min\<close>, and raises \<^verbatim>\<open>OverflowError\<close> otherwise. The result depends
  on the explicit end, the signal and the parser alone: inputs that agree on the explicit
  end yield the same result.
\<close>

theorem interval_is_the_hour_before_end:
  assumes "(\<exists>s. SnowflakeBatchExportInputs.data_interval_end inputs = Some s \<and> s \<noteq> [] \<and> f s = Inr e) \<or>
           ((SnowflakeBatchExportInputs.data_interval_end inputs = None \<or>
             SnowflakeBatchExportInputs.data_interval_end inputs = Some []) \<and>
            ((\<exists>s rest. attr = Some (SAStr s # rest) \<and> f s = Inr e) \<or>
             (\<exists>rest. attr = Some (SADatetime e # rest))))"
    and "e \<le> datetime_max"
  shows "get_data_interval_from_workflow_inputs f attr inputs =
           (if datetime_min + 3600 * 1000000 \<le> e then Inr (e - 3600 * 1000000, e)
            else Inl OverflowError) \<and>
         (\<forall>inputs'. SnowflakeBatchExportInputs.data_interval_end inputs' =
                       SnowflakeBatchExportInputs.data_interval_end inputs \<longrightarrow>
            get_data_interval_from_workflow_inputs f attr inputs' =
            get_data_interval_from_workflow_inputs f attr inputs)"
proof -
  have "resolve_data_interval_end f attr inputs = Inr e"
    using assms(1) by (auto simp: resolve_data_interval_end_def neq_Nil_conv)
  then have "get_data_interval_from_workflow_inputs f attr inputs =
           (if datetime_min + 3600 * 1000000 \<le> e then Inr (e - 3600 * 1000000, e)
            else Inl OverflowError)"
    using assms(2)
    by (auto simp: get_data_interval_from_workflow_inputs_def datetime_sub_seconds_def Let_def
        datetime_min_def datetime_max_def)
  moreover have "\<And>inputs'. SnowflakeBatchExportInputs.data_interval_end inputs' =
                       SnowflakeBatchExportInputs.data_interval_end inputs \<Longrightarrow>
            get_data_interval_from_workflow_inputs f attr inputs' =
            get_data_interval_from_workflow_inputs f attr inputs"
    by (simp add: get_data_interval_from_workflow_inputs_def resolve_data_interval_end_def)
  ultimately show ?thesis by blast
qed

text \<open>The theorem at work: the explicit end of the repository's test, 2023-04-20 14:40,
  gives the interval from 13:40 to 14:40.\<close>

theorem interval_is_the_hour_before_end_witness:
  "get_data_interval_from_workflow_inputs example_fromisoformat None example_inputs =
     Inr (63817594800000000, 63817598400000000)"
proof -
  have h: "(\<exists>s. SnowflakeBatchExportInputs.data_interval_end example_inputs = Some s \<and> s \<noteq> [] \<and>
               example_fromisoformat s = Inr 63817598400000000) \<or>
           ((SnowflakeBatchExportInputs.data_interval_end example_inputs = None \<or>
             SnowflakeBatchExportInputs.data_interval_end example_inputs = Some []) \<and>
            ((\<exists>s rest. None = Some (SAStr s # rest) \<and> example_fromisoformat s = Inr 63817598400000000) \<or>
             (\<exists>rest. None = Some (SADatetime 63817598400000000 # rest))))"
    by (simp add: example_inputs_def example_fromisoformat_def)
  have m: "(63817598400000000 :: int) \<le> datetime_max" by (simp add: datetime_max_def)
  from interval_is_the_hour_before_end [OF h m] show ?thesis
    by (simp add: datetime_min_def)
qed

text \<open>
  Claim C7 as stated fails for an interval end in the first hour that a
  \<^verbatim>\<open>datetime\<close> can hold: the end \<^verbatim>\<open>datetime.min\<close> is resolved, and the subtraction
  of one hour raises \<^verbatim>\<open>OverflowError\<close> instead of returning a pair.
\<close>

theorem interval_is_the_hour_before_end_counterexample:
  "resolve_data_interval_end example_fromisoformat None
     (example_inputs\<lparr>SnowflakeBatchExportInputs.data_interval_end := Some ''0001-01-01T00:00:00''\<rparr>)
     = Inr datetime_min \<and>
   get_data_interval_from_workflow_inputs example_fromisoformat None
     (example_inputs\<lparr>SnowflakeBatchExportInputs.data_interval_end := Some ''0001-01-01T00:00:00''\<rparr>)
     = Inl OverflowError"
  by (simp add: get_data_interval_from_workflow_inputs_def resolve_data_interval_end_def
      example_inputs_def example_fromisoformat_def datetime_sub_seconds_def datetime_min_def
      datetime_max_def)

section \<open>Lemmas on the example and on the statements\<close>

text \<open>The definitions that a run of the example unfolds.\<close>

lemmas example_defs = example_activity_env_def example_insert_inputs_def example_events_def
  example_event_def example_row_def example_toDateTime_def example_format_timestamp_def
  example_properties_def example_json_loads_def example_json_dumps_def
  spec_get_rows_count_def spec_get_results_iterator_def in_interval_def event_row_def
  json_string_def json_escape_def show_int_def show_nat.simps digit_char_def

lemmas activity_defs = insert_into_snowflake_activity_def export_rows_def stage_and_load_def
  try_finally_def execute_def NamedTemporaryFile_def file_write_def file_tell_def
  file_content_def file_name_def file_close_def conn_close_def newline_def serialize_row_def
  py_json_loads_def dict_get_def initial_state_def Let_def

text \<open>The line of the first event of the example: the properties are a nested object,
  not a text.\<close>

lemma example_bytes_e1:
  \<open>example_bytes (example_row ''e1'' 63817597800000000 1) =
     ''{"uuid": "e1", "event": "test", "timestamp": "2023-04-20 14:30:00.000000", "_timestamp": "2023-04-20 14:30:00.000000", "person_id": "person-1", "team_id": 1, "properties": {"$browser": "Chrome", "$os": "Mac OS X"}}'' @ newline\<close>
  by (simp add: example_bytes_def example_defs serialize_row_def py_json_loads_def dict_get_def
      newline_def)

lemma example_serialize_row:
  "serialize_row example_activity_env (example_row ''e1'' 63817597800000000 1) =
     Inr (example_bytes (example_row ''e1'' 63817597800000000 1))"
  "serialize_row example_activity_env (example_row ''e2'' 63817597800000001 1) =
     Inr (example_bytes (example_row ''e2'' 63817597800000001 1))"
  by (simp_all add: example_bytes_def example_defs serialize_row_def py_json_loads_def
      dict_get_def)

lemma example_bytes_long:
  "1 < length (example_bytes (example_row ''e1'' 63817597800000000 1))"
  "1 < length (example_bytes (example_row ''e2'' 63817597800000001 1))"
  by (simp_all add: example_bytes_def example_defs serialize_row_def py_json_loads_def
      dict_get_def newline_def)

lemma example_bytes_not_Nil:
  "example_bytes (example_row ''e1'' 63817597800000000 1) \<noteq> []"
  "example_bytes (example_row ''e2'' 63817597800000001 1) \<noteq> []"
  using example_bytes_long by auto

lemma example_iterator:
  "get_results_iterator example_activity_env 1 ''2023-04-20T13:40:00'' ''2023-04-20T14:40:00'' =
     [Yields (example_row ''e1'' 63817597800000000 1),
      Yields (example_row ''e2'' 63817597800000001 1)]"
  by (simp add: example_activity_env_def spec_get_results_iterator_def in_interval_def
      example_events_def example_event_def example_row_def example_toDateTime_def)

text \<open>The run of the example: one \<^verbatim>\<open>PUT\<close> per event, a last \<^verbatim>\<open>PUT\<close> of the
  empty buffer, the \<^verbatim>\<open>COPY INTO\<close>.\<close>

lemma example_run:
  "insert_into_snowflake_activity example_activity_env example_insert_inputs =
   (Inr (),
    \<lparr>client_calls = [IsAlive, GetRowsCount, GetResultsIterator],
     connection = ConnectionClosed,
     queries =
       [UseDatabase ''PostHog'', UseSchema ''test'',
        CreateTableIfNotExists ''PostHog'' ''test'' ''events'' events_table_columns,
        Put 0 (example_bytes (example_row ''e1'' 63817597800000000 1)) ''events'',
        Put 1 (example_bytes (example_row ''e2'' 63817597800000001 1)) ''events'',
        Put 2 [] ''events'',
        CopyInto ''events'' ''JSON'' ''CASE_SENSITIVE'' True],
     files = [\<lparr>content = [], closed = True\<rparr>,
              \<lparr>content = example_bytes (example_row ''e2'' 63817597800000001 1), closed = True\<rparr>,
              \<lparr>content = example_bytes (example_row ''e1'' 63817597800000000 1), closed = True\<rparr>]\<rparr>)"
proof -
  have it: "get_results_iterator example_activity_env
              (team_id example_insert_inputs) (data_interval_start example_insert_inputs)
              (data_interval_end example_insert_inputs) =
            [Yields (example_row ''e1'' 63817597800000000 1),
             Yields (example_row ''e2'' 63817597800000001 1)]"
    using example_iterator by (simp add: example_insert_inputs_def)
  have ne: "example_row ''e1'' 63817597800000000 1 \<noteq> []"
           "example_row ''e2'' 63817597800000001 1 \<noteq> []"
    by (simp_all add: example_row_def event_row_def)
  have rest: "is_alive example_activity_env"
    "get_rows_count example_activity_env (team_id example_insert_inputs)
       (data_interval_start example_insert_inputs) (data_interval_end example_insert_inputs) = Inr 2"
    "snowflake_connect example_activity_env = None"
    "cursor_execute example_activity_env = (\<lambda>h q. None)"
    "BATCH_EXPORT_SNOWFLAKE_UPLOAD_CHUNK_SIZE_BYTES example_activity_env = 1"
    "database example_insert_inputs = ''PostHog''" "schema example_insert_inputs = ''test''"
    "table_name example_insert_inputs = ''events''"
    by (simp_all add: example_activity_env_def example_insert_inputs_def spec_get_rows_count_def
        in_interval_def example_events_def example_event_def example_toDateTime_def)
  show ?thesis
    using example_bytes_long example_bytes_not_Nil
    by (simp add: insert_into_snowflake_activity_def export_rows_def stage_and_load_def
        try_finally_def execute_def NamedTemporaryFile_def file_write_def file_tell_def
        file_content_def file_name_def file_close_def conn_close_def initial_state_def Let_def
        it ne rest example_serialize_row)
qed

lemma event_row_truthy: "event_row format_timestamp ev \<noteq> []"
  by (simp add: event_row_def)


lemma serialize_row_not_Nil: "serialize_row env r = Inr b \<Longrightarrow> b \<noteq> []"
  by (auto simp: serialize_row_def newline_def split: sum.splits)

lemma staged_files_preamble [simp]: "staged_files (loader_preamble inputs) = []"
  by (simp add: loader_preamble_def)

lemma staged_files_copy_into [simp]: "staged_files [copy_into inputs] = []"
  by (simp add: copy_into_def)

lemma put_files_preamble [simp]: "put_files (loader_preamble inputs) = []"
  by (simp add: loader_preamble_def)

lemma put_files_copy_into [simp]: "put_files [copy_into inputs] = []"
  by (simp add: copy_into_def)

lemma length_staged_files_puts:
  "list_all (is_put t) puts \<Longrightarrow> length (staged_files puts) = length puts"
proof (induction puts)
  case Nil
  show ?case by simp
next
  case (Cons q puts)
  then show ?case by (cases q) auto
qed

lemma last_put:
  assumes "puts \<noteq> []" and "list_all (is_put t) puts"
  shows "\<exists>ps n. puts = ps @ [Put n (last (staged_files puts)) t]"
proof -
  from assms(1) obtain ps q where p: "puts = ps @ [q]" by (metis rev_exhaust)
  with assms(2) have "is_put t q" by simp
  then obtain n b where "q = Put n b t" by (cases q) auto
  with p show ?thesis by auto
qed

lemmas workflow_defs = example_workflow_env_def example_inputs_def example_fromisoformat_def
  example_isoformat_def get_data_interval_from_workflow_inputs_def resolve_data_interval_end_def
  datetime_sub_seconds_def datetime_min_def datetime_max_def execute_activity_def
  create_export_run_retry_policy_def update_export_run_status_retry_policy_def
  insert_into_snowflake_retry_policy_def create_export_run_inputs_def insert_inputs_def
  execute_insert_activity_def numeral_2_eq_2

lemma run_created:
  assumes "get_data_interval_from_workflow_inputs (fromisoformat env)
             (TemporalScheduledStartTime env) inputs = Inr (s, e)"
      and "snd (execute_activity create_export_run_retry_policy
             (create_export_run env (create_export_run_inputs env inputs s e))) = Inr run_id"
  shows "activities (run env inputs) =
           [(CreateExportRun (create_export_run_inputs env inputs s e),
             fst (execute_activity create_export_run_retry_policy
                    (create_export_run env (create_export_run_inputs env inputs s e)))),
            (InsertIntoSnowflake (insert_inputs env inputs s e),
             fst (execute_insert_activity env (insert_inputs env inputs s e))),
            (UpdateExportRunStatus
               \<lparr>id' = run_id,
                status = (case snd (execute_insert_activity env (insert_inputs env inputs s e)) of
                            Inl x \<Rightarrow> ''Failed'' | Inr u \<Rightarrow> ''Completed'')\<rparr>,
             fst (execute_activity update_export_run_status_retry_policy
                    (update_export_run_status env
                       \<lparr>id' = run_id,
                        status = (case snd (execute_insert_activity env (insert_inputs env inputs s e)) of
                                    Inl x \<Rightarrow> ''Failed'' | Inr u \<Rightarrow> ''Completed'')\<rparr>)))]"
    and "result (run env inputs) =
           (case snd (execute_activity update_export_run_status_retry_policy
                    (update_export_run_status env
                       \<lparr>id' = run_id,
                        status = (case snd (execute_insert_activity env (insert_inputs env inputs s e)) of
                                    Inl x \<Rightarrow> ''Failed'' | Inr u \<Rightarrow> ''Completed'')\<rparr>)) of
              Inl x \<Rightarrow> Inl x
            | Inr u \<Rightarrow> snd (execute_insert_activity env (insert_inputs env inputs s e)))"
  using assms by (auto simp: run_def Let_def split: sum.splits)

section \<open>The insert activity: claims C1, C3, C4, C9 and C10\<close>



text \<open>
  Claim C3. The statements of every invocation follow the strict order: select
  database, select schema, create table if absent, then \<^verbatim>\<open>PUT\<close> statements, then at
  most one \<^verbatim>\<open>COPY INTO\<close> (JSON, case-sensitive column match, purge), and nothing
  after it; so no staging call follows the merge-load. An invocation that stages and
  returns normally has sent exactly that sequence with exactly one \<^verbatim>\<open>COPY INTO\<close>
  at its end, after one \<^verbatim>\<open>PUT\<close> per temporary file, in the order of the files'
  creation.
\<close>

theorem statements_follow_strict_order:
  assumes "insert_into_snowflake_activity env inputs = (r, st)"
  shows "strict_order inputs (queries st) \<and>
         (r = Inr () \<and> put_files (queries st) \<noteq> [] \<longrightarrow>
            (\<exists>puts. queries st = loader_preamble inputs @ puts @ [copy_into inputs] \<and>
               puts \<noteq> [] \<and> list_all (is_put (table_name inputs)) puts \<and>
               put_files puts = [0 ..< length puts] \<and> length (files st) = length puts))"
proof -
  note s = activity_structure [OF assms]
  have "connection st \<noteq> NotConnected" if "put_files (queries st) \<noteq> []"
    using s that by auto
  with s show ?thesis by blast
qed

text \<open>
  The theorem on the run of the example.
\<close>

theorem statements_follow_strict_order_witness:
  "fst (insert_into_snowflake_activity example_activity_env example_insert_inputs) = Inr () \<and>
   strict_order example_insert_inputs
     (queries (snd (insert_into_snowflake_activity example_activity_env example_insert_inputs))) \<and>
   (\<exists>puts.
      queries (snd (insert_into_snowflake_activity example_activity_env example_insert_inputs)) =
        loader_preamble example_insert_inputs @ puts @ [copy_into example_insert_inputs] \<and>
      puts \<noteq> [] \<and> list_all (is_put (table_name example_insert_inputs)) puts \<and>
      put_files puts = [0 ..< length puts] \<and>
      length (files (snd (insert_into_snowflake_activity example_activity_env
                example_insert_inputs))) = length puts)"
proof -
  let ?run = "insert_into_snowflake_activity example_activity_env example_insert_inputs"
  have r: "?run = (fst ?run, snd ?run)" by simp
  have ok: "fst ?run = Inr ()" by (simp add: example_run)
  have p: "put_files (queries (snd ?run)) \<noteq> []" by (simp add: example_run)
  from statements_follow_strict_order [OF r] ok p show ?thesis by blast
qed

text \<open>
  Claim C4, as the code has it. For every threshold, there is one staging call per
  buffer, in the order of the buffers' creation; the last staging call stages the final
  buffer whatever its size, and it is followed by the one merge-load. When every row
  alone exceeds the threshold, the \<open>N\<close> rows are staged one per call and the final
  buffer, then empty, is staged as well: \<open>N + 1\<close> staging calls.
\<close>

theorem one_staging_call_per_buffer:
  assumes alive: "is_alive env"
      and count: "get_rows_count env (team_id inputs) (data_interval_start inputs)
                    (data_interval_end inputs) = Inr n" "n \<noteq> 0"
      and conn: "snowflake_connect env = None"
      and ex: "\<forall>h q. cursor_execute env h q = None"
      and it: "get_results_iterator env (team_id inputs) (data_interval_start inputs)
                 (data_interval_end inputs) = map Yields rows"
      and rows: "\<forall>r \<in> set rows. r \<noteq> [] \<and> serialize_row env r = Inr (bytes r)"
  shows "\<exists>st qs k.
           insert_into_snowflake_activity env inputs = (Inr (), st) \<and>
           length (staged_files (queries st)) = length (files st) \<and>
           put_files (queries st) = [0 ..< length (files st)] \<and>
           queries st = qs @ [Put k (file_content st) (table_name inputs), copy_into inputs] \<and>
           ((\<forall>r \<in> set rows. BATCH_EXPORT_SNOWFLAKE_UPLOAD_CHUNK_SIZE_BYTES env < int (length (bytes r))) \<longrightarrow>
              staged_files (queries st) = map bytes rows @ [[]] \<and>
              length (staged_files (queries st)) = Suc (length rows))"
proof -
  let ?T = "BATCH_EXPORT_SNOWFLAKE_UPLOAD_CHUNK_SIZE_BYTES env"
  have rows': "\<And>r. r \<in> set rows \<Longrightarrow> r \<noteq> [] \<and> serialize_row env r = Inr (bytes r)"
    using rows by blast
  have it': "get_results_iterator env (team_id inputs) (data_interval_start inputs)
                 (data_interval_end inputs) = map Yields rows @ []"
    using it by simp
  from activity_healthy [of env inputs n rows "[]" bytes, OF alive count conn _ it' _ rows'] ex
  obtain st where st: "insert_into_snowflake_activity env inputs = (Inr (), st)"
    "connection st = ConnectionClosed"
    "staged_files (queries st) = chunks ?T [] (map bytes rows)"
    by auto
  from activity_structure [OF st(1)] st(2) obtain puts where
    p: "queries st = loader_preamble inputs @ puts @ [copy_into inputs]" "puts \<noteq> []"
       "list_all (is_put (table_name inputs)) puts" "put_files puts = [0 ..< length puts]"
       "length (files st) = length puts" "last (staged_files puts) = file_content st"
    by auto
  from last_put [OF p(2,3)] p(6) obtain ps k where
    l: "puts = ps @ [Put k (file_content st) (table_name inputs)]" by auto
  have a: "length (staged_files (queries st)) = length (files st)"
    using p(1,5) length_staged_files_puts [OF p(3)] by simp
  have b: "put_files (queries st) = [0 ..< length (files st)]"
    using p(1,4,5) by simp
  have c: "queries st = (loader_preamble inputs @ ps) @
             [Put k (file_content st) (table_name inputs), copy_into inputs]"
    using p(1) l by simp
  have d: "staged_files (queries st) = map bytes rows @ [[]] \<and>
           length (staged_files (queries st)) = Suc (length rows)"
    if "\<forall>r \<in> set rows. ?T < int (length (bytes r))"
  proof -
    have each: "l \<noteq> [] \<and> ?T < int (length l)" if "l \<in> set (map bytes rows)" for l
    proof -
      from that obtain r where r: "r \<in> set rows" "l = bytes r" by auto
      from rows' [OF r(1)] have "bytes r \<noteq> []" by (auto dest: serialize_row_not_Nil)
      with r \<open>\<forall>r \<in> set rows. ?T < int (length (bytes r))\<close> show ?thesis by simp
    qed
    have "chunks ?T [] (map bytes rows) = map bytes rows @ [[]]"
      by (rule chunks_one_per_line) (rule each)
    with st(3) show ?thesis by simp
  qed
  from st(1) a b c d show ?thesis by blast
qed

text \<open>
  The theorem on the example: two rows, chunk size one byte, three staging calls.
\<close>

theorem one_staging_call_per_buffer_witness:
  "\<exists>st qs k.
     insert_into_snowflake_activity example_activity_env example_insert_inputs = (Inr (), st) \<and>
     length (staged_files (queries st)) = length (files st) \<and>
     put_files (queries st) = [0 ..< length (files st)] \<and>
     queries st = qs @ [Put k (file_content st) (table_name example_insert_inputs),
                        copy_into example_insert_inputs] \<and>
     length (staged_files (queries st)) =
       Suc (length [example_row ''e1'' 63817597800000000 1,
                    example_row ''e2'' 63817597800000001 1])"
proof -
  let ?i = example_insert_inputs
  let ?rows = "[example_row ''e1'' 63817597800000000 1, example_row ''e2'' 63817597800000001 1]"
  have alive: "is_alive example_activity_env" by (simp add: example_activity_env_def)
  have count: "get_rows_count example_activity_env (team_id ?i) (data_interval_start ?i)
                 (data_interval_end ?i) = Inr 2" "(2::nat) \<noteq> 0"
    by (simp_all add: example_activity_env_def example_insert_inputs_def spec_get_rows_count_def
        in_interval_def example_events_def example_event_def example_toDateTime_def)
  have conn: "snowflake_connect example_activity_env = None"
    by (simp add: example_activity_env_def)
  have ex: "\<forall>h q. cursor_execute example_activity_env h q = None"
    by (simp add: example_activity_env_def)
  have it: "get_results_iterator example_activity_env (team_id ?i) (data_interval_start ?i)
                  (data_interval_end ?i) = map Yields ?rows"
    using example_iterator by (simp add: example_insert_inputs_def)
  have rows: "\<forall>r \<in> set ?rows. r \<noteq> [] \<and> serialize_row example_activity_env r = Inr (example_bytes r)"
    using example_serialize_row by (simp add: example_row_def event_row_truthy)
  have big: "\<forall>r \<in> set ?rows.
      BATCH_EXPORT_SNOWFLAKE_UPLOAD_CHUNK_SIZE_BYTES example_activity_env < int (length (example_bytes r))"
    using example_bytes_long by (simp add: example_activity_env_def)
  from one_staging_call_per_buffer [OF alive count conn ex it rows] big
  show ?thesis by blast
qed

text \<open>
  Claim C4 as stated fails: with a threshold of one byte and two rows in the window,
  the activity makes three staging calls, not two; the third stages the empty buffer.
\<close>

theorem one_row_per_chunk_counterexample:
  "get_results_iterator example_activity_env 1 ''2023-04-20T13:40:00'' ''2023-04-20T14:40:00'' =
     [Yields (example_row ''e1'' 63817597800000000 1),
      Yields (example_row ''e2'' 63817597800000001 1)] \<and>
   staged_files (queries (snd
     (insert_into_snowflake_activity example_activity_env example_insert_inputs))) =
     [example_bytes (example_row ''e1'' 63817597800000000 1),
      example_bytes (example_row ''e2'' 63817597800000001 1),
      []] \<and>
   length (staged_files (queries (snd
     (insert_into_snowflake_activity example_activity_env example_insert_inputs)))) = 3"
  by (simp add: example_run example_iterator)

text \<open>
  Claim C9. On every exit of the insert activity, normal or exceptional, the
  warehouse connection is closed if it was opened, and every temporary file that was
  created is closed, the one in progress included. The connection is opened, and so
  closed at the exit, whenever the source is alive, the row count is not zero and
  \<^verbatim>\<open>connect\<close> does not raise.
\<close>

theorem connection_and_files_closed_on_exit:
  assumes "insert_into_snowflake_activity env inputs = (r, st)"
  shows "(connection st \<noteq> NotConnected \<longrightarrow> connection st = ConnectionClosed) \<and>
         (\<forall>f \<in> set (files st). closed f) \<and>
         (is_alive env \<and> snowflake_connect env = None \<and>
          (\<exists>n. get_rows_count env (team_id inputs) (data_interval_start inputs)
                  (data_interval_end inputs) = Inr (Suc n)) \<longrightarrow>
          connection st = ConnectionClosed)"
proof -
  note s = activity_structure [OF assms]
  have a: "connection st \<noteq> NotConnected \<longrightarrow> connection st = ConnectionClosed"
    using s by (cases "connection st") auto
  have b: "\<forall>f \<in> set (files st). closed f" using s by (simp add: list_all_iff)
  have c: "connection st = ConnectionClosed"
    if "is_alive env" "snowflake_connect env = None"
       "get_rows_count env (team_id inputs) (data_interval_start inputs)
          (data_interval_end inputs) = Inr (Suc n)" for n
    using assms that by (cases rule: activity_cases) (auto simp: conn_close_def)
  from a b c show ?thesis by blast
qed

text \<open>
  The theorem on a failing run: the warehouse rejects the second \<^verbatim>\<open>PUT\<close>; the
  connection and both temporary files are closed.
\<close>

theorem connection_and_files_closed_on_exit_witness:
  "fst (insert_into_snowflake_activity (example_activity_env\<lparr>cursor_execute := example_failing_execute\<rparr>)
          example_insert_inputs) = Inl (OtherError ''ProgrammingError'') \<and>
   length (files (snd (insert_into_snowflake_activity
          (example_activity_env\<lparr>cursor_execute := example_failing_execute\<rparr>) example_insert_inputs))) = 2 \<and>
   connection (snd (insert_into_snowflake_activity
          (example_activity_env\<lparr>cursor_execute := example_failing_execute\<rparr>) example_insert_inputs)) =
     ConnectionClosed \<and>
   list_all closed (files (snd (insert_into_snowflake_activity
          (example_activity_env\<lparr>cursor_execute := example_failing_execute\<rparr>) example_insert_inputs)))"
proof -
  let ?env = "example_activity_env\<lparr>cursor_execute := example_failing_execute\<rparr>"
  let ?run = "insert_into_snowflake_activity ?env example_insert_inputs"
  have r: "?run = (fst ?run, snd ?run)" by simp
  have e: "fst ?run = Inl (OtherError ''ProgrammingError'')" "length (files (snd ?run)) = 2"
    by (simp_all add: example_defs activity_defs example_failing_execute_def)
  have "get_rows_count ?env (team_id example_insert_inputs)
          (data_interval_start example_insert_inputs) (data_interval_end example_insert_inputs) =
        Inr (Suc 1)"
    by (simp add: example_defs)
  then have h: "is_alive ?env \<and> snowflake_connect ?env = None \<and>
      (\<exists>n. get_rows_count ?env (team_id example_insert_inputs)
              (data_interval_start example_insert_inputs)
              (data_interval_end example_insert_inputs) = Inr (Suc n))"
    by (auto simp: example_activity_env_def)
  from connection_and_files_closed_on_exit [OF r] h e show ?thesis
    by (simp add: list_all_iff)
qed

text \<open>
  Claim C10. When the iterator yields an empty mapping after the rows \<open>rows\<close>, then
  the loop stops there: what is staged is what \<open>rows\<close> alone give, whatever the
  iterator would yield afterwards (\<open>rest\<close>), and the activity goes on to the last
  \<^verbatim>\<open>PUT\<close> and the \<^verbatim>\<open>COPY INTO\<close> and returns normally.
\<close>

theorem loop_stops_at_falsy_row:
  assumes alive: "is_alive env"
      and count: "get_rows_count env (team_id inputs) (data_interval_start inputs)
                    (data_interval_end inputs) = Inr n" "n \<noteq> 0"
      and conn: "snowflake_connect env = None"
      and ex: "\<forall>h q. cursor_execute env h q = None"
      and it: "get_results_iterator env (team_id inputs) (data_interval_start inputs)
                 (data_interval_end inputs) = map Yields rows @ Yields [] # rest"
      and rows: "\<forall>r \<in> set rows. r \<noteq> [] \<and> serialize_row env r = Inr (bytes r)"
  shows "\<exists>st qs k.
           insert_into_snowflake_activity env inputs = (Inr (), st) \<and>
           staged_files (queries st) =
             chunks (BATCH_EXPORT_SNOWFLAKE_UPLOAD_CHUNK_SIZE_BYTES env) [] (map bytes rows) \<and>
           concat (staged_files (queries st)) = concat (map bytes rows) \<and>
           queries st = qs @ [Put k (file_content st) (table_name inputs), copy_into inputs]"
proof -
  let ?T = "BATCH_EXPORT_SNOWFLAKE_UPLOAD_CHUNK_SIZE_BYTES env"
  have rows': "\<And>r. r \<in> set rows \<Longrightarrow> r \<noteq> [] \<and> serialize_row env r = Inr (bytes r)"
    using rows by blast
  have tail: "Yields [] # rest = [] \<or> (\<exists>rest'. Yields [] # rest = Yields [] # rest')" by simp
  from activity_healthy [of env inputs n rows "Yields [] # rest" bytes,
      OF alive count conn _ it tail rows'] ex
  obtain st where st: "insert_into_snowflake_activity env inputs = (Inr (), st)"
    "connection st = ConnectionClosed"
    "staged_files (queries st) = chunks ?T [] (map bytes rows)"
    by auto
  from activity_structure [OF st(1)] st(2) obtain puts where
    p: "queries st = loader_preamble inputs @ puts @ [copy_into inputs]" "puts \<noteq> []"
       "list_all (is_put (table_name inputs)) puts" "last (staged_files puts) = file_content st"
    by auto
  from last_put [OF p(2,3)] p(4) obtain ps k where
    l: "puts = ps @ [Put k (file_content st) (table_name inputs)]" by auto
  have c: "queries st = (loader_preamble inputs @ ps) @
             [Put k (file_content st) (table_name inputs), copy_into inputs]"
    using p(1) l by simp
  have "concat (staged_files (queries st)) = concat (map bytes rows)"
    using st(3) by (simp add: concat_chunks)
  with st(1,3) c show ?thesis by blast
qed

text \<open>
  The theorem on the example with an empty mapping between its two events: the first
  event is staged, the second is not.
\<close>

theorem loop_stops_at_falsy_row_witness:
  "\<exists>st qs k.
     insert_into_snowflake_activity
       (example_activity_env\<lparr>get_results_iterator := example_falsy_iterator\<rparr>)
       example_insert_inputs = (Inr (), st) \<and>
     staged_files (queries st) = [example_bytes (example_row ''e1'' 63817597800000000 1), []] \<and>
     queries st = qs @ [Put k (file_content st) (table_name example_insert_inputs),
                        copy_into example_insert_inputs]"
proof -
  let ?env = "example_activity_env\<lparr>get_results_iterator := example_falsy_iterator\<rparr>"
  let ?i = example_insert_inputs
  let ?rows = "[example_row ''e1'' 63817597800000000 1]"
  have alive: "is_alive ?env" by (simp add: example_activity_env_def)
  have count: "get_rows_count ?env (team_id ?i) (data_interval_start ?i)
                 (data_interval_end ?i) = Inr 2" "(2::nat) \<noteq> 0"
    by (simp_all add: example_activity_env_def example_insert_inputs_def spec_get_rows_count_def
        in_interval_def example_events_def example_event_def example_toDateTime_def)
  have conn: "snowflake_connect ?env = None" by (simp add: example_activity_env_def)
  have ex: "\<forall>h q. cursor_execute ?env h q = None" by (simp add: example_activity_env_def)
  have it: "get_results_iterator ?env (team_id ?i) (data_interval_start ?i)
              (data_interval_end ?i) =
            map Yields ?rows @ Yields [] # [Yields (example_row ''e2'' 63817597800000001 1)]"
    by (simp add: example_falsy_iterator_def)
  have same: "serialize_row ?env r = serialize_row example_activity_env r" for r
    by (simp add: serialize_row_def py_json_loads_def split: py_value.splits sum.splits)
  have rows: "\<forall>r \<in> set ?rows. r \<noteq> [] \<and> serialize_row ?env r = Inr (example_bytes r)"
    using example_serialize_row by (simp add: same example_row_def event_row_truthy)
  have ch: "chunks (BATCH_EXPORT_SNOWFLAKE_UPLOAD_CHUNK_SIZE_BYTES ?env) [] (map example_bytes ?rows) =
            [example_bytes (example_row ''e1'' 63817597800000000 1), []]"
    using example_bytes_long example_bytes_not_Nil by (simp add: example_activity_env_def)
  from loop_stops_at_falsy_row [OF alive count conn ex it rows]
  show ?thesis unfolding ch by blast
qed

section \<open>The workflow: claims C2, C5 and C8\<close>

lemma run_not_created:
  assumes "get_data_interval_from_workflow_inputs (fromisoformat env)
             (TemporalScheduledStartTime env) inputs = Inr (s, e)"
      and "snd (execute_activity create_export_run_retry_policy
             (create_export_run env (create_export_run_inputs env inputs s e))) = Inl x"
  shows "activities (run env inputs) =
           [(CreateExportRun (create_export_run_inputs env inputs s e),
             fst (execute_activity create_export_run_retry_policy
                    (create_export_run env (create_export_run_inputs env inputs s e))))]"
    and "result (run env inputs) = Inl x"
  using assms by (simp_all add: run_def Let_def)

text \<open>
  Claim C2, as the code has it. Failures are exceptions that derive from
  \<^verbatim>\<open>Exception\<close>, which is what an activity that fails or is cancelled raises in the
  workflow. For every invocation that reaches the run-creation step (the interval is
  resolved): when run creation succeeds, \<^verbatim>\<open>update_export_run_status\<close> is called
  exactly once, last, after the insert activity; the status passed is \<^verbatim>\<open>Completed\<close>
  if and only if the insert activity returned without raising and \<^verbatim>\<open>Failed\<close>
  otherwise; when the status update does not raise, the workflow ends as the insert
  activity did, with its exception unchanged, and when the status update raises, the
  workflow ends with the exception of the status update. When run creation fails,
  \<^verbatim>\<open>update_export_run_status\<close> is never called, the insert activity is not run, and
  the workflow ends with the exception of run creation.
\<close>

theorem status_updated_once_after_run_creation:
  assumes interval: "get_data_interval_from_workflow_inputs (fromisoformat env)
             (TemporalScheduledStartTime env) inputs = Inr (s, e)"
  shows "(\<forall>run_id.
            snd (execute_activity create_export_run_retry_policy
                   (create_export_run env (create_export_run_inputs env inputs s e))) = Inr run_id \<longrightarrow>
            (\<exists>st. update_calls (activities (run env inputs)) = [\<lparr>id' = run_id, status = st\<rparr>] \<and>
               (st = ''Completed'' \<longleftrightarrow>
                  snd (execute_insert_activity env (insert_inputs env inputs s e)) = Inr ()) \<and>
               (st = ''Failed'' \<longleftrightarrow>
                  (\<exists>x. snd (execute_insert_activity env (insert_inputs env inputs s e)) = Inl x))) \<and>
            (\<exists>c n1 n2 u n3. activities (run env inputs) =
               [(CreateExportRun c, n1),
                (InsertIntoSnowflake (insert_inputs env inputs s e), n2),
                (UpdateExportRunStatus u, n3)]) \<and>
            (\<forall>u. update_calls (activities (run env inputs)) = [u] \<and>
                 snd (execute_activity update_export_run_status_retry_policy
                        (update_export_run_status env u)) = Inr () \<longrightarrow>
                 result (run env inputs) =
                   snd (execute_insert_activity env (insert_inputs env inputs s e))) \<and>
            (\<forall>u x. update_calls (activities (run env inputs)) = [u] \<and>
                 snd (execute_activity update_export_run_status_retry_policy
                        (update_export_run_status env u)) = Inl x \<longrightarrow>
                 result (run env inputs) = Inl x)) \<and>
         (\<forall>x.
            snd (execute_activity create_export_run_retry_policy
                   (create_export_run env (create_export_run_inputs env inputs s e))) = Inl x \<longrightarrow>
            update_calls (activities (run env inputs)) = [] \<and>
            (\<exists>c n1. activities (run env inputs) = [(CreateExportRun c, n1)]) \<and>
            result (run env inputs) = Inl x)"
proof -
  let ?created = "snd (execute_activity create_export_run_retry_policy
                   (create_export_run env (create_export_run_inputs env inputs s e)))"
  let ?ins = "snd (execute_insert_activity env (insert_inputs env inputs s e))"
  let ?st = "case ?ins of Inl x \<Rightarrow> ''Failed'' | Inr u \<Rightarrow> ''Completed''"
  have ok: "(\<exists>st. update_calls (activities (run env inputs)) = [\<lparr>id' = run_id, status = st\<rparr>] \<and>
               (st = ''Completed'' \<longleftrightarrow> ?ins = Inr ()) \<and>
               (st = ''Failed'' \<longleftrightarrow> (\<exists>x. ?ins = Inl x))) \<and>
            (\<exists>c n1 n2 u n3. activities (run env inputs) =
               [(CreateExportRun c, n1),
                (InsertIntoSnowflake (insert_inputs env inputs s e), n2),
                (UpdateExportRunStatus u, n3)]) \<and>
            (\<forall>u. update_calls (activities (run env inputs)) = [u] \<and>
                 snd (execute_activity update_export_run_status_retry_policy
                        (update_export_run_status env u)) = Inr () \<longrightarrow>
                 result (run env inputs) = ?ins) \<and>
            (\<forall>u x. update_calls (activities (run env inputs)) = [u] \<and>
                 snd (execute_activity update_export_run_status_retry_policy
                        (update_export_run_status env u)) = Inl x \<longrightarrow>
                 result (run env inputs) = Inl x)"
    if created: "?created = Inr run_id" for run_id
  proof -
    note r = run_created [OF interval created]
    have u: "update_calls (activities (run env inputs)) = [\<lparr>id' = run_id, status = ?st\<rparr>]"
      unfolding r(1) by simp
    have a: "(?st = ''Completed'' \<longleftrightarrow> ?ins = Inr ()) \<and> (?st = ''Failed'' \<longleftrightarrow> (\<exists>x. ?ins = Inl x))"
      by (cases ?ins) auto
    have b: "\<exists>c n1 n2 u n3. activities (run env inputs) =
              [(CreateExportRun c, n1),
               (InsertIntoSnowflake (insert_inputs env inputs s e), n2),
               (UpdateExportRunStatus u, n3)]"
      unfolding r(1) by blast
    have c: "result (run env inputs) = ?ins"
      if "update_calls (activities (run env inputs)) = [v]"
         "snd (execute_activity update_export_run_status_retry_policy
                 (update_export_run_status env v)) = Inr ()" for v
      using that u unfolding r(2) by simp
    have d: "result (run env inputs) = Inl x"
      if "update_calls (activities (run env inputs)) = [v]"
         "snd (execute_activity update_export_run_status_retry_policy
                 (update_export_run_status env v)) = Inl x" for v x
      using that u unfolding r(2) by simp
    from u a b c d show ?thesis by blast
  qed
  have failed: "update_calls (activities (run env inputs)) = [] \<and>
            (\<exists>c n1. activities (run env inputs) = [(CreateExportRun c, n1)]) \<and>
            result (run env inputs) = Inl x"
    if created: "?created = Inl x" for x
    using run_not_created [OF interval created] by simp
  from ok failed show ?thesis by blast
qed

text \<open>
  The theorem on the example, on the example with a dead source, and on the example
  with a run tracker that rejects the creation.
\<close>

theorem status_updated_once_after_run_creation_witness:
  "update_calls (activities (run example_workflow_env example_inputs)) =
     [\<lparr>id' = ''run-1'', status = ''Completed''\<rparr>] \<and>
   result (run example_workflow_env example_inputs) = Inr () \<and>
   update_calls (activities (run
     (example_workflow_env\<lparr>insert_activity_env := \<lambda>k. example_activity_env\<lparr>is_alive := False\<rparr>\<rparr>)
     example_inputs)) = [\<lparr>id' = ''run-1'', status = ''Failed''\<rparr>] \<and>
   result (run
     (example_workflow_env\<lparr>insert_activity_env := \<lambda>k. example_activity_env\<lparr>is_alive := False\<rparr>\<rparr>)
     example_inputs) = Inl ConnectionError \<and>
   update_calls (activities (run
     (example_workflow_env\<lparr>create_export_run := \<lambda>c k. Inl (OtherError ''IntegrityError'')\<rparr>)
     example_inputs)) = [] \<and>
   result (run
     (example_workflow_env\<lparr>create_export_run := \<lambda>c k. Inl (OtherError ''IntegrityError'')\<rparr>)
     example_inputs) = Inl (OtherError ''IntegrityError'')"
proof -
  let ?s = "63817594800000000 :: int"
  let ?e = "63817598400000000 :: int"
  let ?ok = example_workflow_env
  let ?bad = "example_workflow_env\<lparr>insert_activity_env := \<lambda>k. example_activity_env\<lparr>is_alive := False\<rparr>\<rparr>"
  let ?none = "example_workflow_env\<lparr>create_export_run := \<lambda>c k. Inl (OtherError ''IntegrityError'')\<rparr>"
  have i1: "get_data_interval_from_workflow_inputs (fromisoformat ?ok)
             (TemporalScheduledStartTime ?ok) example_inputs = Inr (?s, ?e)"
    by (simp add: workflow_defs)
  have c1: "snd (execute_activity create_export_run_retry_policy
             (create_export_run ?ok (create_export_run_inputs ?ok example_inputs ?s ?e))) = Inr ''run-1''"
    by (simp add: workflow_defs)
  have i2: "get_data_interval_from_workflow_inputs (fromisoformat ?bad)
             (TemporalScheduledStartTime ?bad) example_inputs = Inr (?s, ?e)"
    by (simp add: workflow_defs)
  have c2: "snd (execute_activity create_export_run_retry_policy
             (create_export_run ?bad (create_export_run_inputs ?bad example_inputs ?s ?e))) = Inr ''run-1''"
    by (simp add: workflow_defs)
  have i3: "get_data_interval_from_workflow_inputs (fromisoformat ?none)
             (TemporalScheduledStartTime ?none) example_inputs = Inr (?s, ?e)"
    by (simp add: workflow_defs)
  have c3: "snd (execute_activity create_export_run_retry_policy
             (create_export_run ?none (create_export_run_inputs ?none example_inputs ?s ?e))) =
            Inl (OtherError ''IntegrityError'')"
    by (simp add: workflow_defs)
  have ii: "insert_inputs ?ok example_inputs ?s ?e = example_insert_inputs"
           "insert_inputs ?bad example_inputs ?s ?e = example_insert_inputs"
    by (simp_all add: workflow_defs example_insert_inputs_def)
  have ins1: "snd (execute_insert_activity ?ok example_insert_inputs) = Inr ()"
    by (simp add: execute_insert_activity_def execute_activity_def
        insert_into_snowflake_retry_policy_def numeral_2_eq_2 example_workflow_env_def example_run)
  have ins2: "snd (execute_insert_activity ?bad example_insert_inputs) = Inl ConnectionError"
    by (simp add: execute_insert_activity_def execute_activity_def
        insert_into_snowflake_retry_policy_def numeral_2_eq_2 example_workflow_env_def
        insert_into_snowflake_activity_def Let_def)
  have u1: "snd (execute_activity update_export_run_status_retry_policy
              (update_export_run_status ?ok v)) = Inr ()" for v
    by (simp add: workflow_defs)
  have u2: "snd (execute_activity update_export_run_status_retry_policy
              (update_export_run_status ?bad v)) = Inr ()" for v
    by (simp add: workflow_defs)
  from status_updated_once_after_run_creation [OF i1] c1
       status_updated_once_after_run_creation [OF i2] c2
       status_updated_once_after_run_creation [OF i3] c3
  show ?thesis unfolding ii ins1 ins2 using u1 u2 by auto
qed

text \<open>
  Claim C2 as stated fails. An invocation that reaches the run-creation step and
  fails there never calls the status update. And when the insert activity raises
  \<^verbatim>\<open>ConnectionError\<close> and the status update raises too, the workflow ends with the
  exception of the status update, not with the original one.
\<close>

theorem status_update_counterexample:
  "update_calls (activities (run
     (example_workflow_env\<lparr>create_export_run := \<lambda>c k. Inl (OtherError ''IntegrityError'')\<rparr>)
     example_inputs)) = [] \<and>
   result (run
     (example_workflow_env\<lparr>create_export_run := \<lambda>c k. Inl (OtherError ''IntegrityError'')\<rparr>)
     example_inputs) = Inl (OtherError ''IntegrityError'') \<and>
   snd (execute_insert_activity
     (example_workflow_env\<lparr>insert_activity_env := \<lambda>k. example_activity_env\<lparr>is_alive := False\<rparr>,
        update_export_run_status := \<lambda>u k. Inl (OtherError ''OperationalError'')\<rparr>)
     example_insert_inputs) = Inl ConnectionError \<and>
   result (run
     (example_workflow_env\<lparr>insert_activity_env := \<lambda>k. example_activity_env\<lparr>is_alive := False\<rparr>,
        update_export_run_status := \<lambda>u k. Inl (OtherError ''OperationalError'')\<rparr>)
     example_inputs) = Inl (OtherError ''OperationalError'')"
  by (simp add: run_def workflow_defs insert_into_snowflake_activity_def Let_def)

text \<open>
  Claim C5, as the code has it. When the row count of the interval is zero, the insert
  activity returns normally after the count: it opens no warehouse connection, sends no
  statement (no staging call, no merge-load and no table creation either) and creates
  no temporary file. It succeeds at its first attempt, and the run is updated to
  \<^verbatim>\<open>Completed\<close>.
\<close>

theorem empty_interval_skips_snowflake:
  assumes interval: "get_data_interval_from_workflow_inputs (fromisoformat env)
             (TemporalScheduledStartTime env) inputs = Inr (s, e)"
      and created: "snd (execute_activity create_export_run_retry_policy
             (create_export_run env (create_export_run_inputs env inputs s e))) = Inr run_id"
      and alive: "is_alive (insert_activity_env env 1)"
      and count: "get_rows_count (insert_activity_env env 1)
                    (team_id (insert_inputs env inputs s e))
                    (data_interval_start (insert_inputs env inputs s e))
                    (data_interval_end (insert_inputs env inputs s e)) = Inr 0"
  shows "(\<exists>st. insert_into_snowflake_activity (insert_activity_env env 1)
                 (insert_inputs env inputs s e) = (Inr (), st) \<and>
               client_calls st = [IsAlive, GetRowsCount] \<and> connection st = NotConnected \<and>
               queries st = [] \<and> files st = []) \<and>
         execute_insert_activity env (insert_inputs env inputs s e) = (1, Inr ()) \<and>
         update_calls (activities (run env inputs)) = [\<lparr>id' = run_id, status = ''Completed''\<rparr>]"
proof -
  let ?i = "insert_inputs env inputs s e"
  have a: "insert_into_snowflake_activity (insert_activity_env env 1) ?i =
             (Inr (), initial_state\<lparr>client_calls := [IsAlive, GetRowsCount]\<rparr>)"
    using alive count by (simp add: insert_into_snowflake_activity_def Let_def initial_state_def)
  have b: "execute_insert_activity env ?i = (1, Inr ())"
    unfolding execute_insert_activity_def execute_activity_def
      insert_into_snowflake_retry_policy_def
    using a by (simp add: numeral_2_eq_2)
  have c: "update_calls (activities (run env inputs)) = [\<lparr>id' = run_id, status = ''Completed''\<rparr>]"
    using run_created(1) [OF interval created] b by simp
  from a b c show ?thesis by (simp add: initial_state_def)
qed

text \<open>
  The theorem on the example for a team without events.
\<close>

theorem empty_interval_skips_snowflake_witness:
  "(\<exists>st. insert_into_snowflake_activity example_activity_env
            (example_insert_inputs\<lparr>team_id := 3\<rparr>) = (Inr (), st) \<and>
          client_calls st = [IsAlive, GetRowsCount] \<and> connection st = NotConnected \<and>
          queries st = [] \<and> files st = []) \<and>
   update_calls (activities (run example_workflow_env
     (example_inputs\<lparr>SnowflakeBatchExportInputs.team_id := 3\<rparr>))) =
     [\<lparr>id' = ''run-1'', status = ''Completed''\<rparr>]"
proof -
  let ?env = example_workflow_env
  let ?inputs = "example_inputs\<lparr>SnowflakeBatchExportInputs.team_id := 3\<rparr>"
  have interval: "get_data_interval_from_workflow_inputs (fromisoformat ?env)
             (TemporalScheduledStartTime ?env) ?inputs = Inr (63817594800000000, 63817598400000000)"
    by (simp add: workflow_defs)
  have created: "snd (execute_activity create_export_run_retry_policy
             (create_export_run ?env (create_export_run_inputs ?env ?inputs
                63817594800000000 63817598400000000))) = Inr ''run-1''"
    by (simp add: workflow_defs)
  have i: "insert_inputs ?env ?inputs 63817594800000000 63817598400000000 =
           example_insert_inputs\<lparr>team_id := 3\<rparr>"
    by (simp add: workflow_defs example_insert_inputs_def)
  have e: "insert_activity_env ?env 1 = example_activity_env"
    by (simp add: example_workflow_env_def)
  have alive: "is_alive (insert_activity_env ?env 1)"
    by (simp add: example_workflow_env_def example_activity_env_def)
  have count: "get_rows_count (insert_activity_env ?env 1)
                    (team_id (insert_inputs ?env ?inputs 63817594800000000 63817598400000000))
                    (data_interval_start (insert_inputs ?env ?inputs 63817594800000000 63817598400000000))
                    (data_interval_end (insert_inputs ?env ?inputs 63817594800000000 63817598400000000)) = Inr 0"
    unfolding i e by (simp add: example_defs)
  from empty_interval_skips_snowflake [OF interval created alive count]
  show ?thesis unfolding i e by blast
qed

text \<open>
  Claim C5 as stated fails: for a team without events the activity returns normally
  and the destination table is not created; the warehouse is never connected to.
\<close>

theorem empty_interval_counterexample:
  "fst (insert_into_snowflake_activity example_activity_env
          (example_insert_inputs\<lparr>team_id := 3\<rparr>)) = Inr () \<and>
   CreateTableIfNotExists ''PostHog'' ''test'' ''events'' events_table_columns \<notin>
     set (queries (snd (insert_into_snowflake_activity example_activity_env
                          (example_insert_inputs\<lparr>team_id := 3\<rparr>)))) \<and>
   connection (snd (insert_into_snowflake_activity example_activity_env
                          (example_insert_inputs\<lparr>team_id := 3\<rparr>))) = NotConnected"
  by (simp add: example_defs activity_defs)

text \<open>
  Claim C8. When the liveness check of the source fails, the activity raises
  \<^verbatim>\<open>ConnectionError\<close> at once: the only call on the source is the liveness check, no
  count is taken, no warehouse connection is opened, no statement is sent and no
  temporary file is created. \<^verbatim>\<open>ConnectionError\<close> is listed as non-retryable in the
  insert activity's retry policy, so the attempt that finds the source dead is the last
  one, however many attempts remain.
\<close>

theorem dead_source_raises_connection_error:
  assumes "\<not> is_alive env"
  shows "(\<exists>st. insert_into_snowflake_activity env i = (Inl ConnectionError, st) \<and>
               client_calls st = [IsAlive] \<and> connection st = NotConnected \<and>
               queries st = [] \<and> files st = []) \<and>
         exception_type ConnectionError \<in>
           set (non_retryable_error_types insert_into_snowflake_retry_policy) \<and>
         (\<forall>envs k remaining. envs k = env \<longrightarrow>
            attempt_activity (non_retryable_error_types insert_into_snowflake_retry_policy)
              (\<lambda>j. fst (insert_into_snowflake_activity (envs j) i)) k remaining =
            (k, Inl ConnectionError))"
proof -
  have a: "insert_into_snowflake_activity env i =
             (Inl ConnectionError, initial_state\<lparr>client_calls := [IsAlive]\<rparr>)"
    using assms by (simp add: insert_into_snowflake_activity_def Let_def)
  have b: "exception_type ConnectionError \<in>
             set (non_retryable_error_types insert_into_snowflake_retry_policy)"
    by (simp add: insert_into_snowflake_retry_policy_def)
  have c: "attempt_activity (non_retryable_error_types insert_into_snowflake_retry_policy)
              (\<lambda>j. fst (insert_into_snowflake_activity (envs j) i)) k remaining =
            (k, Inl ConnectionError)"
    if "envs k = env" for envs k remaining
    using that a b by (cases remaining) simp_all
  from a b c show ?thesis by (simp add: initial_state_def)
qed

text \<open>
  The theorem on the example with a dead source: one attempt.
\<close>

theorem dead_source_raises_connection_error_witness:
  "(\<exists>st. insert_into_snowflake_activity (example_activity_env\<lparr>is_alive := False\<rparr>)
            example_insert_inputs = (Inl ConnectionError, st) \<and>
         client_calls st = [IsAlive] \<and> connection st = NotConnected \<and>
         queries st = [] \<and> files st = []) \<and>
   execute_insert_activity
     (example_workflow_env\<lparr>insert_activity_env := \<lambda>k. example_activity_env\<lparr>is_alive := False\<rparr>\<rparr>)
     example_insert_inputs = (1, Inl ConnectionError)"
proof -
  let ?env = "example_activity_env\<lparr>is_alive := False\<rparr>"
  have h: "\<not> is_alive ?env" by simp
  from dead_source_raises_connection_error [OF h, of example_insert_inputs]
  show ?thesis by (simp add: execute_insert_activity_def execute_activity_def)
qed

end
